theory Spec2Isabelle
  imports Main "HOL-Library.Sublist"
begin

section \<open>JavaScript values\<close>

text \<open>
  Request bodies and realtime control frames are parsed JSON. Reading a property that an
  object does not have gives \<open>undefined\<close>, so the value type has it beside the JSON
  constructors. Numbers are restricted to integers: the code below only observes whether
  a number is zero.
\<close>

datatype jsval =
    JUndefined
  | JNull
  | JBool bool
  | JNum int
  | JStr string
  | JArr "jsval list"
  | JObj "(string \<times> jsval) list"

text \<open>JavaScript truthiness, as used by \<open>!x\<close>, \<open>x && y\<close> and \<open>x || y\<close>.\<close>

fun truthy :: "jsval \<Rightarrow> bool" where
  "truthy JUndefined = False"
| "truthy JNull = False"
| "truthy (JBool b) = b"
| "truthy (JNum n) = (n \<noteq> 0)"
| "truthy (JStr s) = (s \<noteq> [])"
| "truthy (JArr xs) = True"
| "truthy (JObj kvs) = True"

text \<open>\<open>typeof x === "string"\<close>.\<close>

fun is_string :: "jsval \<Rightarrow> bool" where
  "is_string (JStr s) = True"
| "is_string v = False"

text \<open>The string held by a value that is known to be a string.\<close>

fun js_string :: "jsval \<Rightarrow> string" where
  "js_string (JStr s) = s"
| "js_string v = []"

text \<open>
  Primitive values are compared by value in a \<open>Set\<close>; arrays and objects by reference.
\<close>

fun primitive :: "jsval \<Rightarrow> bool" where
  "primitive (JArr xs) = False"
| "primitive (JObj kvs) = False"
| "primitive v = True"

text \<open>
  A parsed JSON object is a list of its members in source order; when a key is repeated
  the last member wins. \<open>js_prop\<close> is the property read \<open>obj.key\<close> on such an object.
\<close>

type_synonym body = "(string \<times> jsval) list"

definition js_prop :: "body \<Rightarrow> string \<Rightarrow> jsval" where
  "js_prop kvs k = (case map_of (rev kvs) k of None \<Rightarrow> JUndefined | Some v \<Rightarrow> v)"

text \<open>\<open>xs.includes(v)\<close> for an array of strings \<open>xs\<close> and any value \<open>v\<close>.\<close>

fun js_includes :: "string list \<Rightarrow> jsval \<Rightarrow> bool" where
  "js_includes xs (JStr s) = (s \<in> set xs)"
| "js_includes xs v = False"

section \<open>Schema\<close>

text \<open>
  The tables of \<open>shared/schema.ts\<close>, one record per row type. Identifiers are strings,
  timestamps are natural numbers. Columns that no function of the server reads or writes
  (avatar URL, metadata, the creation time of rows that are never ordered) are left out.
  Nullable text columns that the routes fill from the request body without inspecting
  them hold the value as supplied.
\<close>

datatype handoff_status = OPEN | IN_PROGRESS | RESOLVED

datatype handoff_priority = LOW | MEDIUM | HIGH | URGENT

fun status_of_string :: "string \<Rightarrow> handoff_status option" where
  "status_of_string s =
     (if s = ''OPEN'' then Some OPEN
      else if s = ''IN_PROGRESS'' then Some IN_PROGRESS
      else if s = ''RESOLVED'' then Some RESOLVED
      else None)"

fun priority_of_string :: "string \<Rightarrow> handoff_priority option" where
  "priority_of_string s =
     (if s = ''LOW'' then Some LOW
      else if s = ''MEDIUM'' then Some MEDIUM
      else if s = ''HIGH'' then Some HIGH
      else if s = ''URGENT'' then Some URGENT
      else None)"

record human =
  hu_id :: string
  hu_email :: string
  hu_password :: string
  hu_name :: string

record workspaceMember =
  wm_workspaceId :: string
  wm_humanId :: string
  wm_role :: string

record agent =
  ag_id :: string
  ag_workspaceId :: string
  ag_name :: string
  ag_description :: jsval
  ag_apiKey :: string
  ag_isActive :: bool
  ag_lastSeenAt :: "nat option"

record channel =
  ch_id :: string
  ch_workspaceId :: string
  ch_name :: string
  ch_description :: jsval
  ch_isPrivate :: jsval

record message =
  msg_id :: string
  msg_channelId :: string
  msg_authorType :: string
  msg_authorId :: "string option"
  msg_content :: string
  msg_messageType :: string
  msg_createdAt :: nat

record handoff =
  h_id :: string
  h_workspaceId :: string
  h_channelId :: jsval
  h_title :: string
  h_description :: jsval
  h_status :: handoff_status
  h_priority :: handoff_priority
  h_fromAgentId :: "string option"
  h_toHumanId :: jsval
  h_resolvedAt :: "nat option"
  h_createdAt :: nat

record memory =
  mem_id :: string
  mem_agentId :: string
  mem_key :: string
  mem_value :: jsval
  mem_expiresAt :: "nat option"
  mem_createdAt :: nat
  mem_updatedAt :: nat

text \<open>The database: one list of rows per table, in insertion order.\<close>

record store =
  humans :: "human list"
  workspaceMembers :: "workspaceMember list"
  agents :: "agent list"
  channels :: "channel list"
  messages :: "message list"
  handoffs :: "handoff list"
  memories :: "memory list"

text \<open>
  What the environment supplies to one request: the clock (\<open>new Date()\<close>,
  \<open>defaultNow()\<close>), the identifier the database generates for an inserted row
  (\<open>gen_random_uuid()\<close>), the secret drawn by \<open>generateApiKey\<close>, and the
  outcome of \<open>jwt.verify\<close> under the server's secret at that time: the payload of a
  token it accepts, nothing for a token it rejects.
\<close>

record env =
  now :: nat
  fresh_id :: string
  fresh_key :: string
  verifyToken :: "string \<Rightarrow> body option"

section \<open>Errors\<close>

text \<open>
  Every early \<open>return res.status(...).json({message})\<close> is an error value carrying the
  message. The 400 answer of the status-transition check interpolates the current and
  the requested status into its message; the model keeps the two values.
  \<open>StorageFailure\<close> is a statement the database rejects (a value outside an enum, a
  null in a column that is not nullable, a reference that names no row, a row limit
  beyond the range of the database's integers): the storage call throws, the handler
  stops there and writes no answer of its own.
\<close>

datatype error =
    Unauthenticated string
  | Forbidden string
  | NotFound string
  | ValidationError string
  | InvalidTransition handoff_status jsval
  | StorageFailure

fun http_status :: "error \<Rightarrow> nat option" where
  "http_status (Unauthenticated m) = Some 401"
| "http_status (Forbidden m) = Some 403"
| "http_status (NotFound m) = Some 404"
| "http_status (ValidationError m) = Some 400"
| "http_status (InvalidTransition cur req) = Some 400"
| "http_status StorageFailure = None"

section \<open>Storage\<close>

text \<open>
  \<open>DatabaseStorage\<close>. A \<open>select ... where\<close> whose first row is taken is \<open>find\<close>; an
  \<open>update ... where\<close> maps over the table; \<open>orderBy(desc(createdAt))\<close> is a stable sort
  reversed (the database leaves the order of equal keys open). An insert appends its
  row unless the database rejects it. The rejections that a request can bring about are
  part of the model: a value outside an enum, a null memory value, and a handoff whose
  \<open>channelId\<close> or \<open>toHumanId\<close>, taken from the request body as they come, names no
  row. The other references of an inserted row are ids of rows the handler has read in
  the same request (the channel of a message, the authenticated agent) or the workspace
  of the row the access check has read; they name a row in every store the database can
  hold and are not checked. Identifiers are the ones the database generates; that a new
  one differs from the old ones is left to the environment.
\<close>

definition getHumanById :: "store \<Rightarrow> string \<Rightarrow> human option" where
  "getHumanById st i = find (\<lambda>u. hu_id u = i) (humans st)"

definition getWorkspaceMember :: "store \<Rightarrow> string \<Rightarrow> string \<Rightarrow> workspaceMember option" where
  "getWorkspaceMember st workspaceId humanId =
     find (\<lambda>m. wm_workspaceId m = workspaceId \<and> wm_humanId m = humanId) (workspaceMembers st)"

definition getAgent :: "store \<Rightarrow> string \<Rightarrow> agent option" where
  "getAgent st i = find (\<lambda>a. ag_id a = i) (agents st)"

definition getAgentByApiKey :: "store \<Rightarrow> string \<Rightarrow> agent option" where
  "getAgentByApiKey st apiKey = find (\<lambda>a. ag_apiKey a = apiKey) (agents st)"

definition getAgentsForWorkspace :: "store \<Rightarrow> string \<Rightarrow> agent list" where
  "getAgentsForWorkspace st workspaceId = filter (\<lambda>a. ag_workspaceId a = workspaceId) (agents st)"

definition createAgent :: "store \<Rightarrow> agent \<Rightarrow> agent \<times> store" where
  "createAgent st a = (a, st\<lparr>agents := agents st @ [a]\<rparr>)"

definition updateAgentLastSeen :: "store \<Rightarrow> string \<Rightarrow> nat \<Rightarrow> store" where
  "updateAgentLastSeen st i t =
     st\<lparr>agents := map (\<lambda>a. if ag_id a = i then a\<lparr>ag_lastSeenAt := Some t\<rparr> else a) (agents st)\<rparr>"

definition getChannel :: "store \<Rightarrow> string \<Rightarrow> channel option" where
  "getChannel st i = find (\<lambda>c. ch_id c = i) (channels st)"

definition getChannelsForWorkspace :: "store \<Rightarrow> string \<Rightarrow> channel list" where
  "getChannelsForWorkspace st workspaceId =
     filter (\<lambda>c. ch_workspaceId c = workspaceId) (channels st)"

definition createChannel :: "store \<Rightarrow> channel \<Rightarrow> channel \<times> store" where
  "createChannel st c = (c, st\<lparr>channels := channels st @ [c]\<rparr>)"

text \<open>
  \<open>getMessagesForChannel(channelId, limit = 50, before?)\<close>: the newest \<open>limit\<close> rows of
  the channel, reversed. The parameter \<open>before\<close> is accepted and not used by the query.
  The query builder writes the \<open>limit\<close> clause for a limit that is not negative only,
  so a negative limit asks for every row; the database takes the limit as a 64-bit
  integer and rejects a larger one.
\<close>

definition getMessagesForChannel ::
  "store \<Rightarrow> string \<Rightarrow> int \<Rightarrow> string option \<Rightarrow> error + message list" where
  "getMessagesForChannel st channelId limit before =
     (let ordered = rev (sort_key msg_createdAt
                          (filter (\<lambda>m. msg_channelId m = channelId) (messages st)))
      in if limit < 0 then Inr (rev ordered)
         else if 2 ^ 63 \<le> limit then Inl StorageFailure
         else Inr (rev (take (nat limit) ordered)))"

definition createMessage :: "store \<Rightarrow> message \<Rightarrow> message \<times> store" where
  "createMessage st m = (m, st\<lparr>messages := messages st @ [m]\<rparr>)"

definition getHandoff :: "store \<Rightarrow> string \<Rightarrow> handoff option" where
  "getHandoff st i = find (\<lambda>h. h_id h = i) (handoffs st)"

definition getHandoffsForWorkspace :: "store \<Rightarrow> string \<Rightarrow> string option \<Rightarrow> error + handoff list" where
  "getHandoffsForWorkspace st workspaceId status =
     (if status \<noteq> None \<and> the status \<noteq> []
      then (case status_of_string (the status) of
              None \<Rightarrow> Inl StorageFailure
            | Some s \<Rightarrow>
                Inr (rev (sort_key h_createdAt
                  (filter (\<lambda>h. h_workspaceId h = workspaceId \<and> h_status h = s) (handoffs st)))))
      else Inr (rev (sort_key h_createdAt
             (filter (\<lambda>h. h_workspaceId h = workspaceId) (handoffs st)))))"

text \<open>
  \<open>InsertHandoff\<close> is the row without \<open>id\<close>, \<open>createdAt\<close> and \<open>resolvedAt\<close>: the
  database fills the first two and leaves \<open>resolvedAt\<close> null. Status and priority
  arrive as values and are cast to their enums by the database; a column that is not
  given takes its default, OPEN and MEDIUM. \<open>channelId\<close> and \<open>toHumanId\<close> are nullable
  references: the database takes an absent value or null, and a string that is the id of
  a row of the referenced table. Any other value reaches it as a text that is no
  generated id and is rejected like a string that names no row.
\<close>

fun names_row :: "(string \<Rightarrow> bool) \<Rightarrow> jsval \<Rightarrow> bool" where
  "names_row present JUndefined = True"
| "names_row present JNull = True"
| "names_row present (JStr s) = present s"
| "names_row present v = False"

text \<open>\<open>createHandoff\<close>: the insert, with the casts and the two references checked.\<close>

record insertHandoff =
  ih_workspaceId :: string
  ih_channelId :: jsval
  ih_title :: string
  ih_description :: jsval
  ih_status :: jsval
  ih_priority :: jsval
  ih_fromAgentId :: "string option"
  ih_toHumanId :: jsval

definition createHandoff :: "env \<Rightarrow> store \<Rightarrow> insertHandoff \<Rightarrow> error + (handoff \<times> store)" where
  "createHandoff e st ih =
     (case (if ih_status ih = JUndefined then Some OPEN
            else if is_string (ih_status ih) then status_of_string (js_string (ih_status ih))
            else None) of
        None \<Rightarrow> Inl StorageFailure
      | Some s \<Rightarrow>
         (case (if ih_priority ih = JUndefined then Some MEDIUM
                else if is_string (ih_priority ih) then priority_of_string (js_string (ih_priority ih))
                else None) of
            None \<Rightarrow> Inl StorageFailure
          | Some p \<Rightarrow>
              if \<not> names_row (\<lambda>i. getChannel st i \<noteq> None) (ih_channelId ih)
                 \<or> \<not> names_row (\<lambda>i. getHumanById st i \<noteq> None) (ih_toHumanId ih)
              then Inl StorageFailure
              else
                let newHandoff = \<lparr>h_id = fresh_id e, h_workspaceId = ih_workspaceId ih,
                      h_channelId = ih_channelId ih, h_title = ih_title ih,
                      h_description = ih_description ih, h_status = s, h_priority = p,
                      h_fromAgentId = ih_fromAgentId ih, h_toHumanId = ih_toHumanId ih,
                      h_resolvedAt = None, h_createdAt = now e\<rparr>
                in Inr (newHandoff, st\<lparr>handoffs := handoffs st @ [newHandoff]\<rparr>)))"

text \<open>
  \<open>updateHandoffStatus(id, status)\<close>: the update data is the status, and
  \<open>resolvedAt\<close> as well exactly when the status is the string \<open>RESOLVED\<close>. The first of
  the rows returned is the answer, \<open>undefined\<close> when no row has the id.
\<close>

definition updateHandoffStatus ::
  "env \<Rightarrow> store \<Rightarrow> string \<Rightarrow> string \<Rightarrow> error + (handoff option \<times> store)" where
  "updateHandoffStatus e st i status =
     (case status_of_string status of
        None \<Rightarrow> Inl StorageFailure
      | Some s \<Rightarrow>
          let updateData =
                (if status = ''RESOLVED''
                 then (\<lambda>h. h\<lparr>h_status := s, h_resolvedAt := Some (now e)\<rparr>)
                 else (\<lambda>h. h\<lparr>h_status := s\<rparr>));
              rows = map (\<lambda>h. if h_id h = i then updateData h else h) (handoffs st)
          in Inr (find (\<lambda>h. h_id h = i) rows, st\<lparr>handoffs := rows\<rparr>))"

text \<open>
  \<open>setMemory\<close>: delete the rows of \<open>(agentId, key)\<close>, then insert the new row. The two
  statements are not one transaction. The column \<open>value\<close> is not nullable: the insert
  of a null value, or of none, is rejected, and the delete before it stays done.
\<close>

record insertMemory =
  im_agentId :: string
  im_key :: string
  im_value :: jsval
  im_expiresAt :: "nat option"


definition deleteMemory :: "store \<Rightarrow> string \<Rightarrow> string \<Rightarrow> store" where
  "deleteMemory st agentId key =
     st\<lparr>memories := filter (\<lambda>m. \<not> (mem_agentId m = agentId \<and> mem_key m = key)) (memories st)\<rparr>"

definition setMemory :: "env \<Rightarrow> store \<Rightarrow> insertMemory \<Rightarrow> (error + memory) \<times> store" where
  "setMemory e st im =
     (let st1 = st\<lparr>memories := filter (\<lambda>m. \<not> (mem_agentId m = im_agentId im \<and> mem_key m = im_key im))
                                      (memories st)\<rparr>;
          newMemory = \<lparr>mem_id = fresh_id e, mem_agentId = im_agentId im, mem_key = im_key im,
                       mem_value = im_value im, mem_expiresAt = im_expiresAt im,
                       mem_createdAt = now e, mem_updatedAt = now e\<rparr>
      in if im_value im = JNull \<or> im_value im = JUndefined
         then (Inl StorageFailure, st1)
         else (Inr newMemory, st1\<lparr>memories := memories st1 @ [newMemory]\<rparr>))"

section \<open>Realtime registry\<close>

text \<open>
  A connected socket with its two interest sets. A JavaScript \<open>Set\<close> is the list of its
  members in insertion order. The members are whatever the control frames carried: a
  primitive is a member at most once, while an array or object taken from a freshly
  parsed frame is a reference no earlier member equals. \<open>ws_outbox\<close> records the
  frames handed to \<open>client.send\<close>.
\<close>

datatype ready_state = WS_CONNECTING | WS_OPEN | WS_CLOSING | WS_CLOSED

datatype room_type = Channel | Workspace

datatype event =
    message_created string message
  | handoff_created string handoff
  | handoff_updated string "handoff option"

record client =
  ws_id :: nat
  ws_userId :: jsval
  ws_readyState :: ready_state
  ws_channels :: "jsval list"
  ws_workspaces :: "jsval list"
  ws_outbox :: "event list"

definition set_has :: "jsval list \<Rightarrow> jsval \<Rightarrow> bool" where
  "set_has xs v = (primitive v \<and> v \<in> set xs)"

definition set_add :: "jsval list \<Rightarrow> jsval \<Rightarrow> jsval list" where
  "set_add xs v = (if set_has xs v then xs else xs @ [v])"

definition set_delete :: "jsval list \<Rightarrow> jsval \<Rightarrow> jsval list" where
  "set_delete xs v = (if set_has xs v then removeAll v xs else xs)"

definition send :: "client \<Rightarrow> event \<Rightarrow> client" where
  "send client ev = client\<lparr>ws_outbox := ws_outbox client @ [ev]\<rparr>"

text \<open>\<open>broadcast(room, type, event)\<close>: one pass over the registered clients.\<close>

definition broadcast :: "string \<Rightarrow> room_type \<Rightarrow> event \<Rightarrow> client list \<Rightarrow> client list" where
  "broadcast room type ev clients =
     map (\<lambda>client.
            if ws_readyState client = WS_OPEN
            then (if type = Channel \<and> set_has (ws_channels client) (JStr room)
                  then send client ev
                  else if type = Workspace \<and> set_has (ws_workspaces client) (JStr room)
                  then send client ev
                  else client)
            else client)
         clients"

text \<open>
  The connection handler registers the socket with empty interest sets; the user id is
  taken from the token of the query string when it verifies.
\<close>

definition on_connection :: "env \<Rightarrow> client list \<Rightarrow> nat \<Rightarrow> string option \<Rightarrow> client list" where
  "on_connection e clients wsid token =
     (let userId =
            (case token of
               None \<Rightarrow> JUndefined
             | Some t \<Rightarrow>
                 if t = [] then JUndefined
                 else (case verifyToken e t of
                         None \<Rightarrow> JUndefined
                       | Some payload \<Rightarrow>
                           if truthy (js_prop payload ''humanId'')
                           then js_prop payload ''humanId''
                           else JUndefined))
      in clients @ [\<lparr>ws_id = wsid, ws_userId = userId, ws_readyState = WS_OPEN,
                      ws_channels = [], ws_workspaces = [], ws_outbox = []\<rparr>])"

definition on_close :: "client list \<Rightarrow> nat \<Rightarrow> client list" where
  "on_close clients wsid = filter (\<lambda>c. ws_id c \<noteq> wsid) clients"

text \<open>
  The message handler. Its argument is the outcome of \<open>JSON.parse(data.toString())\<close>:
  \<open>None\<close> when parsing throws. Reading \<open>.type\<close> of \<open>null\<close> throws as well; both land in
  the empty \<open>catch\<close>. On any other value that is not an object the property reads give
  \<open>undefined\<close>, which matches no case of the \<open>switch\<close>.
\<close>

definition on_message :: "client \<Rightarrow> jsval option \<Rightarrow> client" where
  "on_message ws parsed =
     (case parsed of
        None \<Rightarrow> ws
      | Some JNull \<Rightarrow> ws
      | Some (JObj message) \<Rightarrow>
          (let type = js_prop message ''type'' in
           if type = JStr ''join_channel''
           then ws\<lparr>ws_channels := set_add (ws_channels ws) (js_prop message ''channelId'')\<rparr>
           else if type = JStr ''leave_channel''
           then ws\<lparr>ws_channels := set_delete (ws_channels ws) (js_prop message ''channelId'')\<rparr>
           else if type = JStr ''join_workspace''
           then ws\<lparr>ws_workspaces := set_add (ws_workspaces ws) (js_prop message ''workspaceId'')\<rparr>
           else if type = JStr ''leave_workspace''
           then ws\<lparr>ws_workspaces := set_delete (ws_workspaces ws) (js_prop message ''workspaceId'')\<rparr>
           else ws)
      | Some v \<Rightarrow> ws)"

section \<open>Authentication\<close>

record headers =
  x_agent_key :: "string option"
  authorization :: "string option"

datatype principal = Human human | Agent agent

definition authenticateHuman :: "env \<Rightarrow> store \<Rightarrow> headers \<Rightarrow> error + human" where
  "authenticateHuman e st req =
     (case authorization req of
        None \<Rightarrow> Inl (Unauthenticated ''Unauthorized: No token provided'')
      | Some authHeader \<Rightarrow>
          if \<not> prefix ''Bearer '' authHeader
          then Inl (Unauthenticated ''Unauthorized: No token provided'')
          else
            (case verifyToken e (drop 7 authHeader) of
               None \<Rightarrow> Inl (Unauthenticated ''Unauthorized: Invalid token'')
             | Some payload \<Rightarrow>
                 if \<not> truthy (js_prop payload ''humanId'')
                 then Inl (Unauthenticated ''Unauthorized: Invalid token'')
                 else
                   (case (if is_string (js_prop payload ''humanId'')
                          then getHumanById st (js_string (js_prop payload ''humanId''))
                          else None) of
                      None \<Rightarrow> Inl (Unauthenticated ''Unauthorized: User not found'')
                    | Some human \<Rightarrow> Inr human)))"

definition authenticateAgent :: "env \<Rightarrow> store \<Rightarrow> headers \<Rightarrow> (error + agent) \<times> store" where
  "authenticateAgent e st req =
     (case x_agent_key req of
        None \<Rightarrow> (Inl (Unauthenticated ''Unauthorized: No API key provided''), st)
      | Some apiKey \<Rightarrow>
          if \<not> prefix ''sk_'' apiKey
          then (Inl (Unauthenticated ''Unauthorized: No API key provided''), st)
          else
            (case getAgentByApiKey st apiKey of
               None \<Rightarrow> (Inl (Unauthenticated ''Unauthorized: Invalid API key''), st)
             | Some agent \<Rightarrow>
                 if \<not> ag_isActive agent
                 then (Inl (Forbidden ''Forbidden: Agent is deactivated''), st)
                 else (Inr agent, updateAgentLastSeen st (ag_id agent) (now e))))"

definition authenticateAny :: "env \<Rightarrow> store \<Rightarrow> headers \<Rightarrow> (error + principal) \<times> store" where
  "authenticateAny e st req =
     (if x_agent_key req \<noteq> None \<and> prefix ''sk_'' (the (x_agent_key req))
      then (case authenticateAgent e st req of
              (Inl err, st') \<Rightarrow> (Inl err, st')
            | (Inr agent, st') \<Rightarrow> (Inr (Agent agent), st'))
      else if authorization req \<noteq> None \<and> prefix ''Bearer '' (the (authorization req))
      then (case authenticateHuman e st req of
              Inl err \<Rightarrow> (Inl err, st)
            | Inr human \<Rightarrow> (Inr (Human human), st))
      else (Inl (Unauthenticated ''Unauthorized: No credentials provided''), st))"

section \<open>Routes\<close>

text \<open>
  Each handler takes the store and the registered clients and returns its answer with
  both, updated. The authenticating middleware has run before: \<open>authenticateAny\<close> leaves
  a human or an agent on the request, \<open>authenticateHuman\<close> a human, so the branch of a
  handler for a request with neither is never taken and has no counterpart here. The
  access check that every handler behind \<open>authenticateAny\<close> repeats is written once.
  A handler runs to its end before the next request is taken: the interleaving of two
  handlers at their \<open>await\<close>s is not part of the model.
\<close>

datatype payload =
    json_channels "channel list"
  | json_channel channel
  | json_agents "agent list"
  | json_agent agent
  | json_messages "(message \<times> string) list"
  | json_message message
  | json_handoffs "handoff list"
  | json_handoff "handoff option"

type_synonym answer = "(error + payload) \<times> store \<times> client list"

definition check_member :: "store \<Rightarrow> human \<Rightarrow> string \<Rightarrow> error option" where
  "check_member st user workspaceId =
     (case getWorkspaceMember st workspaceId (hu_id user) of
        None \<Rightarrow> Some (Forbidden ''Not a member of this workspace'')
      | Some member \<Rightarrow> None)"

definition check_access :: "store \<Rightarrow> principal \<Rightarrow> string \<Rightarrow> error option" where
  "check_access st p workspaceId =
     (case p of
        Human user \<Rightarrow> check_member st user workspaceId
      | Agent agent \<Rightarrow>
          if ag_workspaceId agent \<noteq> workspaceId
          then Some (Forbidden ''Agent does not belong to this workspace'')
          else None)"

definition get_channels :: "store \<Rightarrow> client list \<Rightarrow> principal \<Rightarrow> string \<Rightarrow> answer" where
  "get_channels st cs p workspace_id =
     (case check_access st p workspace_id of
        Some err \<Rightarrow> (Inl err, st, cs)
      | None \<Rightarrow> (Inr (json_channels (getChannelsForWorkspace st workspace_id)), st, cs))"

definition post_channels ::
  "env \<Rightarrow> store \<Rightarrow> client list \<Rightarrow> principal \<Rightarrow> string \<Rightarrow> body \<Rightarrow> answer" where
  "post_channels e st cs p workspace_id body =
     (let name = js_prop body ''name'';
          description = js_prop body ''description'';
          isPrivate = js_prop body ''isPrivate''
      in case check_access st p workspace_id of
           Some err \<Rightarrow> (Inl err, st, cs)
         | None \<Rightarrow>
             if \<not> truthy name \<or> \<not> is_string name
             then (Inl (ValidationError ''Channel name is required''), st, cs)
             else
               (case createChannel st
                       \<lparr>ch_id = fresh_id e, ch_workspaceId = workspace_id, ch_name = js_string name,
                        ch_description = description,
                        ch_isPrivate = (if truthy isPrivate then isPrivate else JBool False)\<rparr> of
                  (channel, st') \<Rightarrow> (Inr (json_channel channel), st', cs)))"

text \<open>The agent routes sit behind \<open>authenticateHuman\<close>; the listing withholds the keys.\<close>

definition get_agents :: "store \<Rightarrow> client list \<Rightarrow> human \<Rightarrow> string \<Rightarrow> answer" where
  "get_agents st cs user workspace_id =
     (case check_member st user workspace_id of
        Some err \<Rightarrow> (Inl err, st, cs)
      | None \<Rightarrow>
          (Inr (json_agents (map (\<lambda>agent. agent\<lparr>ag_apiKey := []\<rparr>)
                               (getAgentsForWorkspace st workspace_id))), st, cs))"

definition post_agents ::
  "env \<Rightarrow> store \<Rightarrow> client list \<Rightarrow> human \<Rightarrow> string \<Rightarrow> body \<Rightarrow> answer" where
  "post_agents e st cs user workspace_id body =
     (let name = js_prop body ''name'';
          description = js_prop body ''description''
      in case check_member st user workspace_id of
           Some err \<Rightarrow> (Inl err, st, cs)
         | None \<Rightarrow>
             if \<not> truthy name \<or> \<not> is_string name
             then (Inl (ValidationError ''Agent name is required''), st, cs)
             else
               (case createAgent st
                       \<lparr>ag_id = fresh_id e, ag_workspaceId = workspace_id, ag_name = js_string name,
                        ag_description = description, ag_apiKey = fresh_key e,
                        ag_isActive = True, ag_lastSeenAt = None\<rparr> of
                  (agent, st') \<Rightarrow> (Inr (json_agent agent), st', cs)))"

text \<open>
  The message listing. The query parameter \<open>limit\<close> arrives as the outcome of
  \<open>parseInt\<close> (\<open>None\<close> for \<open>NaN\<close>); \<open>|| 50\<close> replaces \<open>NaN\<close> and zero.
\<close>

definition authorName :: "store \<Rightarrow> message \<Rightarrow> string" where
  "authorName st msg =
     (if msg_authorType msg = ''human'' \<and> msg_authorId msg \<noteq> None \<and> the (msg_authorId msg) \<noteq> []
      then (case getHumanById st (the (msg_authorId msg)) of
              None \<Rightarrow> ''Unknown''
            | Some human \<Rightarrow> if hu_name human \<noteq> [] then hu_name human else ''Unknown'')
      else if msg_authorType msg = ''agent'' \<and> msg_authorId msg \<noteq> None \<and> the (msg_authorId msg) \<noteq> []
      then (case getAgent st (the (msg_authorId msg)) of
              None \<Rightarrow> ''Unknown Agent''
            | Some agent \<Rightarrow> if ag_name agent \<noteq> [] then ag_name agent else ''Unknown Agent'')
      else if msg_authorType msg = ''system'' then ''System''
      else ''Unknown'')"

definition get_messages ::
  "store \<Rightarrow> client list \<Rightarrow> principal \<Rightarrow> string \<Rightarrow> int option \<Rightarrow> string option \<Rightarrow> answer" where
  "get_messages st cs p channel_id parsed_limit before =
     (let limit = (case parsed_limit of None \<Rightarrow> 50 | Some n \<Rightarrow> if n \<noteq> 0 then n else 50)
      in case getChannel st channel_id of
           None \<Rightarrow> (Inl (NotFound ''Channel not found''), st, cs)
         | Some channel \<Rightarrow>
             (case check_access st p (ch_workspaceId channel) of
                Some err \<Rightarrow> (Inl err, st, cs)
              | None \<Rightarrow>
                  (case getMessagesForChannel st channel_id limit before of
                     Inl err \<Rightarrow> (Inl err, st, cs)
                   | Inr msgs \<Rightarrow>
                       (Inr (json_messages (map (\<lambda>msg. (msg, authorName st msg)) msgs)), st, cs))))"

definition post_messages ::
  "env \<Rightarrow> store \<Rightarrow> client list \<Rightarrow> principal \<Rightarrow> string \<Rightarrow> body \<Rightarrow> answer" where
  "post_messages e st cs p channel_id body =
     (let content = js_prop body ''content''
      in case getChannel st channel_id of
           None \<Rightarrow> (Inl (NotFound ''Channel not found''), st, cs)
         | Some channel \<Rightarrow>
             (case check_access st p (ch_workspaceId channel) of
                Some err \<Rightarrow> (Inl err, st, cs)
              | None \<Rightarrow>
                  let authorType = (case p of Human user \<Rightarrow> ''human'' | Agent agent \<Rightarrow> ''agent'');
                      authorId = (case p of Human user \<Rightarrow> hu_id user | Agent agent \<Rightarrow> ag_id agent)
                  in if \<not> truthy content \<or> \<not> is_string content
                     then (Inl (ValidationError ''Message content is required''), st, cs)
                     else
                       (case createMessage st
                               \<lparr>msg_id = fresh_id e, msg_channelId = channel_id,
                                msg_authorType = authorType, msg_authorId = Some authorId,
                                msg_content = js_string content, msg_messageType = ''TEXT'',
                                msg_createdAt = now e\<rparr> of
                          (message, st') \<Rightarrow>
                            (Inr (json_message message), st',
                             broadcast channel_id Channel (message_created channel_id message) cs))))"

definition get_handoffs ::
  "store \<Rightarrow> client list \<Rightarrow> principal \<Rightarrow> string \<Rightarrow> string option \<Rightarrow> answer" where
  "get_handoffs st cs p workspace_id status =
     (case check_access st p workspace_id of
        Some err \<Rightarrow> (Inl err, st, cs)
      | None \<Rightarrow>
          (case getHandoffsForWorkspace st workspace_id status of
             Inl err \<Rightarrow> (Inl err, st, cs)
           | Inr hs \<Rightarrow> (Inr (json_handoffs hs), st, cs)))"

definition validPriorities :: "string list" where
  "validPriorities = [''LOW'', ''MEDIUM'', ''HIGH'', ''URGENT'']"

definition post_handoffs ::
  "env \<Rightarrow> store \<Rightarrow> client list \<Rightarrow> principal \<Rightarrow> string \<Rightarrow> body \<Rightarrow> answer" where
  "post_handoffs e st cs p workspace_id body =
     (let title = js_prop body ''title'';
          description = js_prop body ''description'';
          priority = js_prop body ''priority'';
          channelId = js_prop body ''channelId'';
          toHumanId = js_prop body ''toHumanId''
      in case check_access st p workspace_id of
           Some err \<Rightarrow> (Inl err, st, cs)
         | None \<Rightarrow>
             let fromAgentId = (case p of Human user \<Rightarrow> None | Agent agent \<Rightarrow> Some (ag_id agent))
             in if \<not> truthy title \<or> \<not> is_string title
                then (Inl (ValidationError ''Handoff title is required''), st, cs)
                else if truthy priority \<and> \<not> js_includes validPriorities priority
                then (Inl (ValidationError ''Invalid priority''), st, cs)
                else
                  (case createHandoff e st
                          \<lparr>ih_workspaceId = workspace_id, ih_channelId = channelId,
                           ih_title = js_string title, ih_description = description,
                           ih_status = JStr ''OPEN'',
                           ih_priority = (if truthy priority then priority else JStr ''MEDIUM''),
                           ih_fromAgentId = fromAgentId, ih_toHumanId = toHumanId\<rparr> of
                     Inl err \<Rightarrow> (Inl err, st, cs)
                   | Inr (handoff, st') \<Rightarrow>
                       (Inr (json_handoff (Some handoff)), st',
                        broadcast workspace_id Workspace (handoff_created workspace_id handoff) cs)))"

text \<open>The table of legal next states, and the status-transition route.\<close>

fun validTransitions :: "handoff_status \<Rightarrow> string list" where
  "validTransitions OPEN = [''IN_PROGRESS'']"
| "validTransitions IN_PROGRESS = [''RESOLVED'']"
| "validTransitions RESOLVED = []"

definition patch_handoff ::
  "env \<Rightarrow> store \<Rightarrow> client list \<Rightarrow> principal \<Rightarrow> string \<Rightarrow> body \<Rightarrow> answer" where
  "patch_handoff e st cs p handoff_id body =
     (let status = js_prop body ''status''
      in case getHandoff st handoff_id of
           None \<Rightarrow> (Inl (NotFound ''Handoff not found''), st, cs)
         | Some handoff \<Rightarrow>
             (case check_access st p (h_workspaceId handoff) of
                Some err \<Rightarrow> (Inl err, st, cs)
              | None \<Rightarrow>
                  if \<not> js_includes (validTransitions (h_status handoff)) status
                  then (Inl (InvalidTransition (h_status handoff) status), st, cs)
                  else
                    (case updateHandoffStatus e st handoff_id (js_string status) of
                       Inl err \<Rightarrow> (Inl err, st, cs)
                     | Inr (updated, st') \<Rightarrow>
                         (Inr (json_handoff updated), st',
                          broadcast (h_workspaceId handoff) Workspace
                            (handoff_updated (h_workspaceId handoff) updated) cs))))"

text \<open>
  A request is its credentials and one operation; the server runs the operation's
  middleware, then its handler. The operations are the routes on the channels, agents,
  messages and handoffs of a workspace; registration, login, the caller's own profile
  and workspaces, and the memory routes never touch the table of handoffs.
\<close>

datatype operation =
    GET_channels string
  | POST_channels string body
  | GET_agents string
  | POST_agents string body
  | GET_messages string "int option" "string option"
  | POST_messages string body
  | GET_handoffs string "string option"
  | POST_handoffs string body
  | PATCH_handoff string body

definition behind_any ::
  "env \<Rightarrow> store \<Rightarrow> client list \<Rightarrow> headers \<Rightarrow> (store \<Rightarrow> principal \<Rightarrow> answer) \<Rightarrow> answer" where
  "behind_any e st cs req route =
     (case authenticateAny e st req of
        (Inl err, st') \<Rightarrow> (Inl err, st', cs)
      | (Inr p, st') \<Rightarrow> route st' p)"

definition behind_human ::
  "env \<Rightarrow> store \<Rightarrow> client list \<Rightarrow> headers \<Rightarrow> (human \<Rightarrow> answer) \<Rightarrow> answer" where
  "behind_human e st cs req route =
     (case authenticateHuman e st req of
        Inl err \<Rightarrow> (Inl err, st, cs)
      | Inr user \<Rightarrow> route user)"

fun handle :: "env \<Rightarrow> store \<Rightarrow> client list \<Rightarrow> headers \<Rightarrow> operation \<Rightarrow> answer" where
  "handle e st cs req (GET_channels w) =
     behind_any e st cs req (\<lambda>st' p. get_channels st' cs p w)"
| "handle e st cs req (POST_channels w b) =
     behind_any e st cs req (\<lambda>st' p. post_channels e st' cs p w b)"
| "handle e st cs req (GET_agents w) =
     behind_human e st cs req (\<lambda>user. get_agents st cs user w)"
| "handle e st cs req (POST_agents w b) =
     behind_human e st cs req (\<lambda>user. post_agents e st cs user w b)"
| "handle e st cs req (GET_messages c l b) =
     behind_any e st cs req (\<lambda>st' p. get_messages st' cs p c l b)"
| "handle e st cs req (POST_messages c b) =
     behind_any e st cs req (\<lambda>st' p. post_messages e st' cs p c b)"
| "handle e st cs req (GET_handoffs w s) =
     behind_any e st cs req (\<lambda>st' p. get_handoffs st' cs p w s)"
| "handle e st cs req (POST_handoffs w b) =
     behind_any e st cs req (\<lambda>st' p. post_handoffs e st' cs p w b)"
| "handle e st cs req (PATCH_handoff h b) =
     behind_any e st cs req (\<lambda>st' p. patch_handoff e st' cs p h b)"

section \<open>Notions used in the statements\<close>

text \<open>An answer is a success when it is not an error.\<close>

definition succeeded :: "answer \<Rightarrow> bool" where
  "succeeded a = (case fst a of Inl err \<Rightarrow> False | Inr r \<Rightarrow> True)"



text \<open>
  The two legal steps of the handoff lifecycle, as a relation between the current
  status and the value requested in the body.
\<close>

definition legal_transition :: "handoff_status \<Rightarrow> jsval \<Rightarrow> bool" where
  "legal_transition current requested =
     ((current = OPEN \<and> requested = JStr ''IN_PROGRESS'')
      \<or> (current = IN_PROGRESS \<and> requested = JStr ''RESOLVED''))"

text \<open>
  A history of the server is a list of requests, each with the environment it meets.
  \<open>resolves i\<close> holds of a request that is a status transition of handoff \<open>i\<close> asking
  for \<open>RESOLVED\<close> and is answered with success; \<open>resolve_times i\<close> lists the clock
  readings of those requests along a history.
\<close>

type_synonym request = "env \<times> headers \<times> operation"

fun run :: "store \<Rightarrow> client list \<Rightarrow> request list \<Rightarrow> store \<times> client list" where
  "run st cs [] = (st, cs)"
| "run st cs ((e, req, operation) # rs) =
     (case handle e st cs req operation of (res, st', cs') \<Rightarrow> run st' cs' rs)"

fun resolves :: "string \<Rightarrow> store \<Rightarrow> client list \<Rightarrow> request \<Rightarrow> bool" where
  "resolves i st cs (e, req, PATCH_handoff handoff_id body) =
     (handoff_id = i \<and> js_prop body ''status'' = JStr ''RESOLVED''
      \<and> succeeded (handle e st cs req (PATCH_handoff handoff_id body)))"
| "resolves i st cs (e, req, operation) = False"

fun resolve_times :: "string \<Rightarrow> store \<Rightarrow> client list \<Rightarrow> request list \<Rightarrow> nat list" where
  "resolve_times i st cs [] = []"
| "resolve_times i st cs ((e, req, operation) # rs) =
     (case handle e st cs req operation of
        (res, st', cs') \<Rightarrow>
          (if resolves i st cs (e, req, operation) then [now e] else [])
          @ resolve_times i st' cs' rs)"

section \<open>A small deployment\<close>

text \<open>
  One workspace with a member, an active and a deactivated agent, a channel with three
  messages and an open handoff; used to run the theorems on concrete requests.
\<close>

definition demo_user :: human where
  "demo_user = \<lparr>hu_id = ''u1'', hu_email = ''demo@agenthq.io'', hu_password = ''x'',
                 hu_name = ''Alex Chen''\<rparr>"

definition demo_agent :: agent where
  "demo_agent = \<lparr>ag_id = ''a1'', ag_workspaceId = ''w1'', ag_name = ''Support Assistant'',
                  ag_description = JNull, ag_apiKey = ''sk_a1'', ag_isActive = True,
                  ag_lastSeenAt = None\<rparr>"

definition idle_agent :: agent where
  "idle_agent = \<lparr>ag_id = ''a2'', ag_workspaceId = ''w1'', ag_name = ''Data Analyzer'',
                  ag_description = JNull, ag_apiKey = ''sk_a2'', ag_isActive = False,
                  ag_lastSeenAt = None\<rparr>"

definition demo_channel :: channel where
  "demo_channel = \<lparr>ch_id = ''c1'', ch_workspaceId = ''w1'', ch_name = ''general'',
                    ch_description = JNull, ch_isPrivate = JBool False\<rparr>"

definition demo_message :: "string \<Rightarrow> nat \<Rightarrow> message" where
  "demo_message i t = \<lparr>msg_id = i, msg_channelId = ''c1'', msg_authorType = ''human'',
                        msg_authorId = Some ''u1'', msg_content = ''hello'',
                        msg_messageType = ''TEXT'', msg_createdAt = t\<rparr>"

definition demo_handoff :: handoff where
  "demo_handoff = \<lparr>h_id = ''h1'', h_workspaceId = ''w1'', h_channelId = JUndefined,
                    h_title = ''Review'', h_description = JUndefined, h_status = OPEN,
                    h_priority = HIGH, h_fromAgentId = Some ''a1'', h_toHumanId = JUndefined,
                    h_resolvedAt = None, h_createdAt = 5\<rparr>"

definition demo_store :: store where
  "demo_store = \<lparr>humans = [demo_user],
                  workspaceMembers = [\<lparr>wm_workspaceId = ''w1'', wm_humanId = ''u1'', wm_role = ''owner''\<rparr>],
                  agents = [demo_agent, idle_agent],
                  channels = [demo_channel],
                  messages = [demo_message ''m1'' 1, demo_message ''m2'' 2, demo_message ''m3'' 3],
                  handoffs = [demo_handoff],
                  memories = []\<rparr>"

definition demo_env :: env where
  "demo_env = \<lparr>now = 100, fresh_id = ''n1'', fresh_key = ''sk_n1'',
                verifyToken = (\<lambda>t. if t = ''t1'' then Some [(''humanId'', JStr ''u1'')] else None)\<rparr>"

definition agent_request :: headers where
  "agent_request = \<lparr>x_agent_key = Some ''sk_a1'', authorization = None\<rparr>"

definition user_request :: headers where
  "user_request = \<lparr>x_agent_key = None, authorization = Some ''Bearer t1''\<rparr>"

definition demo_insert :: insertHandoff where
  "demo_insert = \<lparr>ih_workspaceId = ''w1'', ih_channelId = JUndefined, ih_title = ''Audit'',
                   ih_description = JUndefined, ih_status = JStr ''OPEN'',
                   ih_priority = JStr ''LOW'', ih_fromAgentId = None, ih_toHumanId = JUndefined\<rparr>"

definition new_handoff :: handoff where
  "new_handoff = \<lparr>h_id = ''n1'', h_workspaceId = ''w1'', h_channelId = JUndefined,
                   h_title = ''Audit'', h_description = JUndefined, h_status = OPEN,
                   h_priority = LOW, h_fromAgentId = None, h_toHumanId = JUndefined,
                   h_resolvedAt = None, h_createdAt = 100\<rparr>"

definition later :: "nat \<Rightarrow> env" where
  "later t = demo_env\<lparr>now := t\<rparr>"

definition demo_history :: "request list" where
  "demo_history =
     [(later 150, user_request, PATCH_handoff ''n1'' [(''status'', JStr ''RESOLVED'')]),
      (later 200, user_request, PATCH_handoff ''n1'' [(''status'', JStr ''IN_PROGRESS'')]),
      (later 250, agent_request, PATCH_handoff ''n1'' [(''status'', JStr ''RESOLVED'')]),
      (later 300, user_request, PATCH_handoff ''n1'' [(''status'', JStr ''RESOLVED'')])]"





definition both_request :: headers where
  "both_request = \<lparr>x_agent_key = Some ''sk_a2'', authorization = Some ''Bearer t1''\<rparr>"

text \<open>
  The notions of the realtime statements: a session is interested in a room when the
  room id is a member of its interest set of that kind; the four well-formed control
  frames; a history of the registry (connections, closes, frames, changes of a
  transport's state, publishes); and when two sessions cannot be told apart by any
  publish.
\<close>

definition interested :: "room_type \<Rightarrow> string \<Rightarrow> client \<Rightarrow> bool" where
  "interested type room c =
     (case type of
        Channel \<Rightarrow> JStr room \<in> set (ws_channels c)
      | Workspace \<Rightarrow> JStr room \<in> set (ws_workspaces c))"

definition control_frame :: "string \<Rightarrow> string \<Rightarrow> string \<Rightarrow> jsval option" where
  "control_frame type key room = Some (JObj [(''type'', JStr type), (key, JStr room)])"

definition join_channel :: "client \<Rightarrow> string \<Rightarrow> client" where
  "join_channel ws room = on_message ws (control_frame ''join_channel'' ''channelId'' room)"

definition leave_channel :: "client \<Rightarrow> string \<Rightarrow> client" where
  "leave_channel ws room = on_message ws (control_frame ''leave_channel'' ''channelId'' room)"

definition join_workspace :: "client \<Rightarrow> string \<Rightarrow> client" where
  "join_workspace ws room = on_message ws (control_frame ''join_workspace'' ''workspaceId'' room)"

definition leave_workspace :: "client \<Rightarrow> string \<Rightarrow> client" where
  "leave_workspace ws room = on_message ws (control_frame ''leave_workspace'' ''workspaceId'' room)"

datatype registry_event =
    Connect env nat "string option"
  | Close nat
  | Frame nat "jsval option"
  | Transport nat ready_state
  | Publish string room_type event

fun registry_step :: "client list \<Rightarrow> registry_event \<Rightarrow> client list" where
  "registry_step cs (Connect e wsid token) = on_connection e cs wsid token"
| "registry_step cs (Close wsid) = on_close cs wsid"
| "registry_step cs (Frame wsid parsed) =
     map (\<lambda>c. if ws_id c = wsid then on_message c parsed else c) cs"
| "registry_step cs (Transport wsid s) =
     map (\<lambda>c. if ws_id c = wsid then c\<lparr>ws_readyState := s\<rparr> else c) cs"
| "registry_step cs (Publish room type ev) = broadcast room type ev cs"

definition registry_run :: "client list \<Rightarrow> registry_event list \<Rightarrow> client list" where
  "registry_run cs evs = foldl registry_step cs evs"

definition rooms :: "jsval list \<Rightarrow> string set" where
  "rooms xs = {r. JStr r \<in> set xs}"

definition same_delivery :: "client \<Rightarrow> client \<Rightarrow> bool" where
  "same_delivery c c' =
     (ws_id c' = ws_id c \<and> ws_readyState c' = ws_readyState c \<and> ws_outbox c' = ws_outbox c
      \<and> rooms (ws_channels c') = rooms (ws_channels c)
      \<and> rooms (ws_workspaces c') = rooms (ws_workspaces c))"

definition demo_client :: "nat \<Rightarrow> ready_state \<Rightarrow> string \<Rightarrow> client" where
  "demo_client i s room = \<lparr>ws_id = i, ws_userId = JUndefined, ws_readyState = s,
                            ws_channels = [JStr room], ws_workspaces = [], ws_outbox = []\<rparr>"

definition demo_clients :: "client list" where
  "demo_clients = [demo_client 1 WS_OPEN ''c1'', demo_client 2 WS_OPEN ''c2'',
                   demo_client 3 WS_CLOSING ''c1'']"

definition demo_event :: event where
  "demo_event = message_created ''c1'' (demo_message ''m4'' 4)"

definition control_types :: "string list" where
  "control_types = [''join_channel'', ''leave_channel'', ''join_workspace'', ''leave_workspace'']"

definition lacks_room_id :: "body \<Rightarrow> bool" where
  "lacks_room_id m =
     (((js_prop m ''type'' = JStr ''join_channel'' \<or> js_prop m ''type'' = JStr ''leave_channel'')
         \<and> js_prop m ''channelId'' = JUndefined)
      \<or> ((js_prop m ''type'' = JStr ''join_workspace'' \<or> js_prop m ''type'' = JStr ''leave_workspace'')
         \<and> js_prop m ''workspaceId'' = JUndefined))"

definition bare_join :: body where
  "bare_join = [(''type'', JStr ''join_channel'')]"







section \<open>Handoff lifecycle\<close>

lemma js_includes_validTransitions:
  "js_includes (validTransitions current) requested = legal_transition current requested"
  by (cases current; cases requested) (auto simp: legal_transition_def)

lemma find_map_same_id:
  assumes "\<And>h. h_id (f h) = h_id h"
  shows "find (\<lambda>h. h_id h = i) (map (\<lambda>h. if h_id h = i then f h else h) xs)
     = map_option f (find (\<lambda>h. h_id h = i) xs)"
  using assms by (induction xs) auto

lemma find_map_other_id:
  assumes "j \<noteq> i" and "\<And>h. h_id (f h) = h_id h"
  shows "find (\<lambda>h. h_id h = i) (map (\<lambda>h. if h_id h = j then f h else h) xs)
     = find (\<lambda>h. h_id h = i) xs"
  using assms by (induction xs) auto

lemma find_append_Some: "find P xs = Some x \<Longrightarrow> find P (xs @ ys) = Some x"
  by (induction xs) (auto split: if_splits)

lemma updateHandoffStatus_other:
  "x \<noteq> i \<Longrightarrow> updateHandoffStatus e st x s = Inr (u, st') \<Longrightarrow> getHandoff st' i = getHandoff st i"
  by (auto simp: updateHandoffStatus_def getHandoff_def find_map_other_id Let_def
      split: option.splits if_splits)

lemma updateHandoffStatus_same:
  "updateHandoffStatus e st i s = Inr (u, st') \<Longrightarrow> getHandoff st i = Some h \<Longrightarrow>
   status_of_string s \<noteq> None \<and>
   getHandoff st' i = Some (if s = ''RESOLVED''
                           then h\<lparr>h_status := RESOLVED, h_resolvedAt := Some (now e)\<rparr>
                           else h\<lparr>h_status := the (status_of_string s)\<rparr>)"
  by (auto simp: updateHandoffStatus_def getHandoff_def find_map_same_id Let_def
      split: option.splits if_splits)



lemma patch_handoff_error_no_effect:
  "\<not> succeeded (patch_handoff e st cs p x body) \<Longrightarrow> snd (patch_handoff e st cs p x body) = (st, cs)"
  by (auto simp: patch_handoff_def succeeded_def Let_def split: option.splits sum.splits if_splits)






lemma authenticateAny_handoffs: "handoffs (snd (authenticateAny e st req)) = handoffs st"
  by (auto simp: authenticateAny_def authenticateAgent_def updateAgentLastSeen_def
      split: option.splits sum.splits prod.splits if_splits)

lemma get_channels_store: "snd (get_channels st cs p w) = (st, cs)"
  by (simp add: get_channels_def split: option.splits)

lemma post_channels_handoffs: "handoffs (fst (snd (post_channels e st cs p w b))) = handoffs st"
  by (simp add: post_channels_def createChannel_def Let_def split: option.splits)

lemma get_messages_store: "snd (get_messages st cs p c l b) = (st, cs)"
  by (simp add: get_messages_def Let_def split: option.splits sum.splits)

lemma post_messages_handoffs: "handoffs (fst (snd (post_messages e st cs p c b))) = handoffs st"
  by (simp add: post_messages_def createMessage_def Let_def split: option.splits)

lemma get_handoffs_store: "snd (get_handoffs st cs p w s) = (st, cs)"
  by (simp add: get_handoffs_def split: option.splits sum.splits)

lemma get_agents_store: "snd (get_agents st cs u w) = (st, cs)"
  by (simp add: get_agents_def split: option.splits)

lemma post_agents_handoffs: "handoffs (fst (snd (post_agents e st cs u w b))) = handoffs st"
  by (simp add: post_agents_def createAgent_def Let_def split: option.splits)

lemma post_handoffs_get:
  "getHandoff st i = Some h \<Longrightarrow> getHandoff (fst (snd (post_handoffs e st cs p w b))) i = Some h"
  by (auto simp: post_handoffs_def createHandoff_def Let_def getHandoff_def find_append_Some
      split: option.splits sum.splits)

text \<open>The status-transition handler, seen from one handoff.\<close>

lemma patch_handoff_step:
  assumes "getHandoff st i = Some h"
  shows "\<exists>h'. getHandoff (fst (snd (patch_handoff e st cs p x body))) i = Some h'
     \<and> (if x = i \<and> js_prop body ''status'' = JStr ''RESOLVED''
            \<and> succeeded (patch_handoff e st cs p x body)
         then h_resolvedAt h' = Some (now e) \<and> h_status h' = RESOLVED \<and> h_status h = IN_PROGRESS
         else h_resolvedAt h' = h_resolvedAt h \<and> (h_status h' = RESOLVED \<longleftrightarrow> h_status h = RESOLVED))"
proof (cases "succeeded (patch_handoff e st cs p x body)")
  case False
  then have "fst (snd (patch_handoff e st cs p x body)) = st"
    by (auto simp: patch_handoff_def succeeded_def Let_def split: option.splits sum.splits if_splits)
  with False assms show ?thesis by simp
next
  case True
  then obtain hx u st' where hx: "getHandoff st x = Some hx"
    and legal: "legal_transition (h_status hx) (js_prop body ''status'')"
    and upd: "updateHandoffStatus e st x (js_string (js_prop body ''status'')) = Inr (u, st')"
    and st': "fst (snd (patch_handoff e st cs p x body)) = st'"
    by (auto simp: patch_handoff_def succeeded_def Let_def js_includes_validTransitions
        split: option.splits sum.splits if_splits)
  show ?thesis
  proof (cases "x = i")
    case False
    with updateHandoffStatus_other [OF False upd] assms st' show ?thesis by simp
  next
    case same: True
    with hx assms have [simp]: "hx = h" by simp
    from updateHandoffStatus_same [OF upd [unfolded same] assms]
    have "getHandoff st' i = Some (if js_string (js_prop body ''status'') = ''RESOLVED''
                           then h\<lparr>h_status := RESOLVED, h_resolvedAt := Some (now e)\<rparr>
                           else h\<lparr>h_status := the (status_of_string (js_string (js_prop body ''status'')))\<rparr>)"
      by simp
    with legal True same st' show ?thesis
      by (auto simp: legal_transition_def)
  qed
qed

lemma behind_any_handoffs:
  assumes "\<And>st1 p. handoffs st1 = handoffs st \<Longrightarrow> handoffs (fst (snd (route st1 p))) = handoffs st"
  shows "handoffs (fst (snd (behind_any e st cs req route))) = handoffs st"
  using assms authenticateAny_handoffs [of e st req]
  by (auto simp: behind_any_def split: prod.splits sum.splits)

lemma handle_step:
  assumes "getHandoff st i = Some h"
  shows "\<exists>h'. getHandoff (fst (snd (handle e st cs req operation))) i = Some h'
     \<and> (if resolves i st cs (e, req, operation)
         then h_resolvedAt h' = Some (now e) \<and> h_status h' = RESOLVED \<and> h_status h = IN_PROGRESS
         else h_resolvedAt h' = h_resolvedAt h \<and> (h_status h' = RESOLVED \<longleftrightarrow> h_status h = RESOLVED))"
proof (cases operation)
  case (PATCH_handoff x body)
  show ?thesis
  proof (cases "authenticateAny e st req")
    case (Pair r st1)
    have h1: "getHandoff st1 i = Some h"
      using authenticateAny_handoffs [of e st req] Pair assms by (simp add: getHandoff_def)
    show ?thesis
    proof (cases r)
      case (Inl err)
      with Pair PATCH_handoff h1 show ?thesis
        by (simp add: behind_any_def succeeded_def)
    next
      case (Inr p)
      with Pair PATCH_handoff patch_handoff_step [OF h1, of e cs p x body] show ?thesis
        by (simp add: behind_any_def)
    qed
  qed
next
  case (POST_handoffs w b)
  show ?thesis
  proof (cases "authenticateAny e st req")
    case (Pair r st1)
    have h1: "getHandoff st1 i = Some h"
      using authenticateAny_handoffs [of e st req] Pair assms by (simp add: getHandoff_def)
    show ?thesis
    proof (cases r)
      case (Inl err)
      with Pair POST_handoffs h1 show ?thesis
        by (simp add: behind_any_def)
    next
      case (Inr p)
      with Pair POST_handoffs post_handoffs_get [OF h1, of e cs p w b] show ?thesis
        by (simp add: behind_any_def)
    qed
  qed
next
  case (GET_channels w)
  have "handoffs (fst (snd (handle e st cs req operation))) = handoffs st"
    unfolding GET_channels handle.simps
    by (rule behind_any_handoffs) (simp add: get_channels_store)
  with assms GET_channels show ?thesis by (simp add: getHandoff_def)
next
  case (POST_channels w b)
  have "handoffs (fst (snd (handle e st cs req operation))) = handoffs st"
    unfolding POST_channels handle.simps
    by (rule behind_any_handoffs) (simp add: post_channels_handoffs)
  with assms POST_channels show ?thesis by (simp add: getHandoff_def)
next
  case (GET_messages c l b)
  have "handoffs (fst (snd (handle e st cs req operation))) = handoffs st"
    unfolding GET_messages handle.simps
    by (rule behind_any_handoffs) (simp add: get_messages_store)
  with assms GET_messages show ?thesis by (simp add: getHandoff_def)
next
  case (POST_messages c b)
  have "handoffs (fst (snd (handle e st cs req operation))) = handoffs st"
    unfolding POST_messages handle.simps
    by (rule behind_any_handoffs) (simp add: post_messages_handoffs)
  with assms POST_messages show ?thesis by (simp add: getHandoff_def)
next
  case (GET_handoffs w s)
  have "handoffs (fst (snd (handle e st cs req operation))) = handoffs st"
    unfolding GET_handoffs handle.simps
    by (rule behind_any_handoffs) (simp add: get_handoffs_store)
  with assms GET_handoffs show ?thesis by (simp add: getHandoff_def)
next
  case (GET_agents w)
  have "handoffs (fst (snd (handle e st cs req operation))) = handoffs st"
    unfolding GET_agents handle.simps
    by (simp add: behind_human_def get_agents_store split: sum.splits)
  with assms GET_agents show ?thesis by (simp add: getHandoff_def)
next
  case (POST_agents w b)
  have "handoffs (fst (snd (handle e st cs req operation))) = handoffs st"
    unfolding POST_agents handle.simps
    by (simp add: behind_human_def post_agents_handoffs split: sum.splits)
  with assms POST_agents show ?thesis by (simp add: getHandoff_def)
qed

lemma run_resolvedAt:
  assumes "getHandoff st i = Some h"
    and "h_status h \<noteq> RESOLVED \<longrightarrow> h_resolvedAt h = None"
  shows "\<exists>h'. getHandoff (fst (run st cs rs)) i = Some h'
     \<and> (if h_status h = RESOLVED
         then resolve_times i st cs rs = [] \<and> h_resolvedAt h' = h_resolvedAt h
         else length (resolve_times i st cs rs) \<le> 1
            \<and> h_resolvedAt h' = (case resolve_times i st cs rs of [] \<Rightarrow> None | t # ts \<Rightarrow> Some t))"
  using assms
proof (induction rs arbitrary: st cs h)
  case Nil
  then show ?case by simp
next
  case (Cons r rs)
  obtain e req operation where r: "r = (e, req, operation)" by (cases r)
  obtain res st1 cs1 where step: "handle e st cs req operation = (res, st1, cs1)"
    by (cases "handle e st cs req operation")
  from handle_step [OF Cons.prems(1), of e cs req operation] step obtain h1 where
    h1: "getHandoff st1 i = Some h1"
    and eff: "if resolves i st cs (e, req, operation)
         then h_resolvedAt h1 = Some (now e) \<and> h_status h1 = RESOLVED \<and> h_status h = IN_PROGRESS
         else h_resolvedAt h1 = h_resolvedAt h \<and> (h_status h1 = RESOLVED \<longleftrightarrow> h_status h = RESOLVED)"
    by auto
  have inv1: "h_status h1 \<noteq> RESOLVED \<longrightarrow> h_resolvedAt h1 = None"
    using eff Cons.prems(2) by (auto split: if_splits)
  from Cons.IH [OF h1 inv1, of cs1] obtain h' where
    h': "getHandoff (fst (run st1 cs1 rs)) i = Some h'"
    and rest: "if h_status h1 = RESOLVED
         then resolve_times i st1 cs1 rs = [] \<and> h_resolvedAt h' = h_resolvedAt h1
         else length (resolve_times i st1 cs1 rs) \<le> 1
            \<and> h_resolvedAt h' = (case resolve_times i st1 cs1 rs of [] \<Rightarrow> None | t # ts \<Rightarrow> Some t)"
    by blast
  show ?case
  proof (cases "resolves i st cs (e, req, operation)")
    case True
    with eff rest h' Cons.prems(2) show ?thesis
      by (simp add: r step)
  next
    case False
    with eff rest h' Cons.prems(2) show ?thesis
      by (auto simp add: r step split: if_splits)
  qed
qed


lemma find_append_None: "find P xs = None \<Longrightarrow> find P (xs @ ys) = find P ys"
  by (induction xs) (auto split: if_splits)

lemma createHandoff_row:
  assumes "createHandoff e0 st0 ih = Inr (h0, st)" and "getHandoff st0 (fresh_id e0) = None"
  shows "h_resolvedAt h0 = None \<and> h_id h0 = fresh_id e0 \<and> getHandoff st (h_id h0) = Some h0"
  using assms
  by (auto simp: createHandoff_def getHandoff_def find_append_None Let_def
      split: option.splits if_splits)

text \<open>
  C2. A handoff is created with \<open>resolvedAt\<close> null. Along every history of requests
  after its creation, at most one request is a successful transition of this handoff to
  RESOLVED; \<open>resolvedAt\<close> is null as long as there has been none and is the clock
  reading of that request from then on. No other request sets or clears it.
\<close>

theorem resolvedAt_assigned_once:
  assumes "createHandoff e0 st0 ih = Inr (h0, st)"
    and "getHandoff st0 (fresh_id e0) = None"
  shows "h_resolvedAt h0 = None
     \<and> (\<exists>h. getHandoff (fst (run st cs rs)) (h_id h0) = Some h
          \<and> length (resolve_times (h_id h0) st cs rs) \<le> 1
          \<and> h_resolvedAt h = (case resolve_times (h_id h0) st cs rs of [] \<Rightarrow> None | t # ts \<Rightarrow> Some t))"
proof -
  from createHandoff_row [OF assms] have none: "h_resolvedAt h0 = None"
    and row: "getHandoff st (h_id h0) = Some h0" by blast+
  from run_resolvedAt [OF row, of cs rs] none obtain h where
    "getHandoff (fst (run st cs rs)) (h_id h0) = Some h"
    "if h_status h0 = RESOLVED
     then resolve_times (h_id h0) st cs rs = [] \<and> h_resolvedAt h = h_resolvedAt h0
     else length (resolve_times (h_id h0) st cs rs) \<le> 1
        \<and> h_resolvedAt h = (case resolve_times (h_id h0) st cs rs of [] \<Rightarrow> None | t # ts \<Rightarrow> Some t)"
    by auto
  with none show ?thesis by (auto split: if_splits)
qed

lemma demo_created:
  "createHandoff demo_env demo_store demo_insert
     = Inr (new_handoff, demo_store\<lparr>handoffs := [demo_handoff, new_handoff]\<rparr>)"
  by (simp add: createHandoff_def demo_env_def demo_insert_def new_handoff_def demo_store_def
      Let_def)

lemma demo_fresh: "getHandoff demo_store (fresh_id demo_env) = None"
  by (simp add: getHandoff_def demo_store_def demo_env_def demo_handoff_def)

lemma demo_times:
  "resolve_times ''n1'' (demo_store\<lparr>handoffs := [demo_handoff, new_handoff]\<rparr>) [] demo_history = [250]"
  by (simp add: demo_history_def later_def demo_env_def user_request_def agent_request_def
      behind_any_def authenticateAny_def authenticateAgent_def authenticateHuman_def
      getAgentByApiKey_def getHumanById_def updateAgentLastSeen_def js_prop_def
      patch_handoff_def getHandoff_def check_access_def check_member_def getWorkspaceMember_def
      updateHandoffStatus_def broadcast_def succeeded_def
      demo_store_def demo_handoff_def new_handoff_def demo_user_def demo_agent_def idle_agent_def)

theorem resolvedAt_assigned_once_witness:
  "createHandoff demo_env demo_store demo_insert
     = Inr (new_handoff, demo_store\<lparr>handoffs := [demo_handoff, new_handoff]\<rparr>)
   \<and> getHandoff demo_store (fresh_id demo_env) = None
   \<and> (\<exists>h. getHandoff (fst (run (demo_store\<lparr>handoffs := [demo_handoff, new_handoff]\<rparr>) [] demo_history)) ''n1''
             = Some h
          \<and> h_resolvedAt h = Some 250)"
proof -
  have id: "h_id new_handoff = ''n1''" by (simp add: new_handoff_def)
  from resolvedAt_assigned_once [OF demo_created demo_fresh, of "[]" demo_history]
  have "\<exists>h. getHandoff (fst (run (demo_store\<lparr>handoffs := [demo_handoff, new_handoff]\<rparr>) [] demo_history)) ''n1''
             = Some h
          \<and> h_resolvedAt h = Some 250"
    unfolding id demo_times by simp
  with demo_created demo_fresh show ?thesis by simp
qed



section \<open>Handoff creation\<close>

















section \<open>Identity resolution\<close>


lemma find_map_apiKey:
  assumes "\<And>a. ag_apiKey (f a) = ag_apiKey a"
  shows "find (\<lambda>a. ag_apiKey a = k) (map f xs) = map_option f (find (\<lambda>a. ag_apiKey a = k) xs)"
  using assms by (induction xs) auto

lemma getAgentByApiKey_key: "getAgentByApiKey st k = Some a \<Longrightarrow> ag_apiKey a = k"
  by (auto simp: getAgentByApiKey_def dest: find_Some_iff [THEN iffD1])

lemma getAgentByApiKey_lastSeen:
  assumes "getAgentByApiKey st k = Some a"
  shows "getAgentByApiKey (updateAgentLastSeen st (ag_id a) t) k = Some (a\<lparr>ag_lastSeenAt := Some t\<rparr>)"
proof -
  have "find (\<lambda>a. ag_apiKey a = k)
          (map (\<lambda>b. if ag_id b = ag_id a then b\<lparr>ag_lastSeenAt := Some t\<rparr> else b) (agents st))
        = map_option (\<lambda>b. if ag_id b = ag_id a then b\<lparr>ag_lastSeenAt := Some t\<rparr> else b)
            (find (\<lambda>a. ag_apiKey a = k) (agents st))"
    by (rule find_map_apiKey) simp
  with assms show ?thesis
    by (simp add: getAgentByApiKey_def updateAgentLastSeen_def)
qed

lemma authenticateAny_key:
  assumes "x_agent_key req = Some k" and "prefix ''sk_'' k"
  shows "authenticateAny e st req =
     (case getAgentByApiKey st k of
        None \<Rightarrow> (Inl (Unauthenticated ''Unauthorized: Invalid API key''), st)
      | Some a \<Rightarrow>
          if ag_isActive a
          then (Inr (Agent a), updateAgentLastSeen st (ag_id a) (now e))
          else (Inl (Forbidden ''Forbidden: Agent is deactivated''), st))"
  using assms by (simp add: authenticateAny_def authenticateAgent_def split: option.splits)

text \<open>
  C4. When the request carries an agent key starting with \<open>sk_\<close>, the outcome of
  authentication does not depend on the authorization header, and the key is looked up
  by equality: no agent with the key gives the unauthenticated error, a deactivated
  agent the forbidden error, both leaving the store as it was; an active agent is
  returned as the principal and its \<open>lastSeenAt\<close> is set to the current time. A request
  with neither header gets the unauthenticated error.
\<close>

theorem authenticateAny_agent_key:
  "(x_agent_key req = Some k \<and> prefix ''sk_'' k \<longrightarrow>
      (\<forall>bearer. authenticateAny e st (req\<lparr>authorization := bearer\<rparr>) = authenticateAny e st req)
      \<and> (getAgentByApiKey st k = None \<longrightarrow>
           authenticateAny e st req = (Inl (Unauthenticated ''Unauthorized: Invalid API key''), st))
      \<and> (\<forall>a. getAgentByApiKey st k = Some a \<longrightarrow>
           ag_apiKey a = k
           \<and> (\<not> ag_isActive a \<longrightarrow>
                authenticateAny e st req = (Inl (Forbidden ''Forbidden: Agent is deactivated''), st))
           \<and> (ag_isActive a \<longrightarrow>
                authenticateAny e st req = (Inr (Agent a), updateAgentLastSeen st (ag_id a) (now e))
                \<and> getAgentByApiKey (updateAgentLastSeen st (ag_id a) (now e)) k
                    = Some (a\<lparr>ag_lastSeenAt := Some (now e)\<rparr>))))
   \<and> (x_agent_key req = None \<and> authorization req = None \<longrightarrow>
        authenticateAny e st req = (Inl (Unauthenticated ''Unauthorized: No credentials provided''), st))"
proof (intro conjI impI allI)
  fix bearer assume a: "x_agent_key req = Some k \<and> prefix ''sk_'' k"
  then have "x_agent_key (req\<lparr>authorization := bearer\<rparr>) = Some k" by simp
  from authenticateAny_key [OF this, of e st] authenticateAny_key [of req k e st] a
  show "authenticateAny e st (req\<lparr>authorization := bearer\<rparr>) = authenticateAny e st req"
    by simp
next
  assume "x_agent_key req = Some k \<and> prefix ''sk_'' k" "getAgentByApiKey st k = None"
  then show "authenticateAny e st req = (Inl (Unauthenticated ''Unauthorized: Invalid API key''), st)"
    by (simp add: authenticateAny_key)
next
  fix a assume "getAgentByApiKey st k = Some a"
  then show "ag_apiKey a = k" by (rule getAgentByApiKey_key)
next
  fix a assume "x_agent_key req = Some k \<and> prefix ''sk_'' k" "getAgentByApiKey st k = Some a"
    "\<not> ag_isActive a"
  then show "authenticateAny e st req = (Inl (Forbidden ''Forbidden: Agent is deactivated''), st)"
    by (simp add: authenticateAny_key)
next
  fix a assume "x_agent_key req = Some k \<and> prefix ''sk_'' k" "getAgentByApiKey st k = Some a"
    "ag_isActive a"
  then show "authenticateAny e st req = (Inr (Agent a), updateAgentLastSeen st (ag_id a) (now e))"
    by (simp add: authenticateAny_key)
next
  fix a assume "getAgentByApiKey st k = Some a"
  then show "getAgentByApiKey (updateAgentLastSeen st (ag_id a) (now e)) k
                    = Some (a\<lparr>ag_lastSeenAt := Some (now e)\<rparr>)"
    by (rule getAgentByApiKey_lastSeen)
next
  assume "x_agent_key req = None \<and> authorization req = None"
  then show "authenticateAny e st req = (Inl (Unauthenticated ''Unauthorized: No credentials provided''), st)"
    by (simp add: authenticateAny_def)
qed

lemma demo_keys:
  "getAgentByApiKey demo_store ''sk_a1'' = Some demo_agent"
  "getAgentByApiKey demo_store ''sk_a2'' = Some idle_agent"
  "getAgentByApiKey demo_store ''sk_zz'' = None"
  by (simp_all add: getAgentByApiKey_def demo_store_def demo_agent_def idle_agent_def)

theorem authenticateAny_agent_key_witness:
  "x_agent_key both_request = Some ''sk_a2'' \<and> prefix ''sk_'' ''sk_a2''
   \<and> getAgentByApiKey demo_store ''sk_a2'' = Some idle_agent \<and> \<not> ag_isActive idle_agent
   \<and> authenticateAny demo_env demo_store both_request
        = (Inl (Forbidden ''Forbidden: Agent is deactivated''), demo_store)
   \<and> authenticateAny demo_env demo_store \<lparr>x_agent_key = None, authorization = None\<rparr>
        = (Inl (Unauthenticated ''Unauthorized: No credentials provided''), demo_store)"
proof -
  have k: "x_agent_key both_request = Some ''sk_a2''" "prefix ''sk_'' ''sk_a2''"
    by (simp_all add: both_request_def)
  have idle: "\<not> ag_isActive idle_agent" by (simp add: idle_agent_def)
  note inst = authenticateAny_agent_key [of both_request "''sk_a2''" demo_env demo_store]
  from inst [THEN conjunct1] k demo_keys(2) idle
  have one: "authenticateAny demo_env demo_store both_request
        = (Inl (Forbidden ''Forbidden: Agent is deactivated''), demo_store)" by blast
  from authenticateAny_agent_key [of "\<lparr>x_agent_key = None, authorization = None\<rparr>" k demo_env demo_store for k,
      THEN conjunct2]
  have two: "authenticateAny demo_env demo_store \<lparr>x_agent_key = None, authorization = None\<rparr>
        = (Inl (Unauthenticated ''Unauthorized: No credentials provided''), demo_store)" by simp
  from k demo_keys(2) idle one two show ?thesis by (intro conjI)
qed


section \<open>Realtime delivery\<close>


lemma set_has_str: "set_has xs (JStr r) = (JStr r \<in> set xs)"
  by (simp add: set_has_def)

lemma set_set_add: "set (set_add xs v) = insert v (set xs)"
  by (auto simp: set_add_def set_has_def)

lemma set_set_delete: "set (set_delete xs v) = (if primitive v then set xs - {v} else set xs)"
  by (auto simp: set_delete_def set_has_def)

lemma rooms_set_add:
  "rooms (set_add xs v) = (if is_string v then insert (js_string v) (rooms xs) else rooms xs)"
  by (cases v) (auto simp: rooms_def set_set_add)

lemma rooms_set_delete:
  "rooms (set_delete xs v) = (if is_string v then rooms xs - {js_string v} else rooms xs)"
  by (cases v) (auto simp: rooms_def set_set_delete)

lemma interested_rooms:
  "interested Channel room c = (room \<in> rooms (ws_channels c))"
  "interested Workspace room c = (room \<in> rooms (ws_workspaces c))"
  by (simp_all add: interested_def rooms_def)

lemma broadcast_nth:
  assumes "i < length clients"
  shows "broadcast room type ev clients ! i
     = (if ws_readyState (clients ! i) = WS_OPEN \<and> interested type room (clients ! i)
        then (clients ! i)\<lparr>ws_outbox := ws_outbox (clients ! i) @ [ev]\<rparr>
        else clients ! i)"
  using assms by (cases type) (simp_all add: broadcast_def interested_def set_has_str send_def)

text \<open>
  C6. A publish keeps the registry's sockets in place and, socket by socket, appends
  the event to what was sent to it exactly when its transport is open and its interest
  set of the room's kind contains the room id; every other socket is left exactly as it
  was, whether it is subscribed to another room only or its transport is not open:
  nothing is queued for it.
\<close>

theorem broadcast_delivery:
  "length (broadcast room type ev clients) = length clients
   \<and> (\<forall>i<length clients.
        broadcast room type ev clients ! i
          = (if ws_readyState (clients ! i) = WS_OPEN \<and> interested type room (clients ! i)
             then (clients ! i)\<lparr>ws_outbox := ws_outbox (clients ! i) @ [ev]\<rparr>
             else clients ! i))"
  using broadcast_nth by (simp add: broadcast_def)

lemma on_message_object:
  "on_message ws (Some (JObj m)) =
     (if js_prop m ''type'' = JStr ''join_channel''
      then ws\<lparr>ws_channels := set_add (ws_channels ws) (js_prop m ''channelId'')\<rparr>
      else if js_prop m ''type'' = JStr ''leave_channel''
      then ws\<lparr>ws_channels := set_delete (ws_channels ws) (js_prop m ''channelId'')\<rparr>
      else if js_prop m ''type'' = JStr ''join_workspace''
      then ws\<lparr>ws_workspaces := set_add (ws_workspaces ws) (js_prop m ''workspaceId'')\<rparr>
      else if js_prop m ''type'' = JStr ''leave_workspace''
      then ws\<lparr>ws_workspaces := set_delete (ws_workspaces ws) (js_prop m ''workspaceId'')\<rparr>
      else ws)"
  by (simp add: on_message_def Let_def)

lemma on_message_not_object:
  assumes "\<forall>m. parsed \<noteq> Some (JObj m)"
  shows "on_message ws parsed = ws"
proof (cases parsed)
  case None
  then show ?thesis by (simp add: on_message_def)
next
  case (Some v)
  with assms show ?thesis by (cases v) (simp_all add: on_message_def)
qed

lemma on_message_fixed:
  "ws_id (on_message c f) = ws_id c \<and> ws_userId (on_message c f) = ws_userId c
   \<and> ws_readyState (on_message c f) = ws_readyState c \<and> ws_outbox (on_message c f) = ws_outbox c"
proof (cases "\<exists>m. f = Some (JObj m)")
  case True
  then obtain m where "f = Some (JObj m)" by blast
  then show ?thesis by (simp add: on_message_object)
next
  case False
  then show ?thesis by (simp add: on_message_not_object)
qed

lemma on_message_channels:
  assumes "rooms (ws_channels c') = rooms (ws_channels c)"
  shows "rooms (ws_channels (on_message c' f)) = rooms (ws_channels (on_message c f))"
proof (cases "\<exists>m. f = Some (JObj m)")
  case True
  then obtain m where "f = Some (JObj m)" by blast
  with assms show ?thesis by (simp add: on_message_object rooms_set_add rooms_set_delete)
next
  case False
  with assms show ?thesis by (simp add: on_message_not_object)
qed

lemma on_message_workspaces:
  assumes "rooms (ws_workspaces c') = rooms (ws_workspaces c)"
  shows "rooms (ws_workspaces (on_message c' f)) = rooms (ws_workspaces (on_message c f))"
proof (cases "\<exists>m. f = Some (JObj m)")
  case True
  then obtain m where "f = Some (JObj m)" by blast
  with assms show ?thesis by (simp add: on_message_object rooms_set_add rooms_set_delete)
next
  case False
  with assms show ?thesis by (simp add: on_message_not_object)
qed

lemma same_delivery_refl: "same_delivery c c"
  by (simp add: same_delivery_def)

lemma same_delivery_on_message:
  "same_delivery c c' \<Longrightarrow> same_delivery (on_message c f) (on_message c' f)"
  using on_message_channels [of c' c f] on_message_workspaces [of c' c f]
  by (simp add: same_delivery_def on_message_fixed)

lemma same_delivery_interested:
  "same_delivery c c' \<Longrightarrow> interested type room c' = interested type room c"
  by (cases type) (simp_all add: same_delivery_def interested_rooms)

lemma same_delivery_broadcast:
  assumes "list_all2 same_delivery cs cs'"
  shows "list_all2 same_delivery (broadcast room type ev cs) (broadcast room type ev cs')"
proof -
  have len: "length cs = length cs'" using assms by (rule list_all2_lengthD)
  show ?thesis
  proof (rule list_all2_all_nthI)
    show "length (broadcast room type ev cs) = length (broadcast room type ev cs')"
      using len by (simp add: broadcast_def)
  next
    fix n assume "n < length (broadcast room type ev cs)"
    then have n: "n < length cs" "n < length cs'" using len by (simp_all add: broadcast_def)
    from assms n have sd: "same_delivery (cs ! n) (cs' ! n)" by (simp add: list_all2_nthD)
    from sd same_delivery_interested [OF sd, of type room]
    show "same_delivery (broadcast room type ev cs ! n) (broadcast room type ev cs' ! n)"
      by (simp add: broadcast_nth n same_delivery_def)
  qed
qed

lemma same_delivery_step:
  assumes "list_all2 same_delivery cs cs'"
  shows "list_all2 same_delivery (registry_step cs x) (registry_step cs' x)"
proof (cases x)
  case (Connect e wsid token)
  with assms show ?thesis
    by (simp add: on_connection_def Let_def list_all2_appendI same_delivery_refl)
next
  case (Close wsid)
  from assms show ?thesis
    unfolding Close registry_step.simps on_close_def
    by (induction rule: list_all2_induct) (auto simp: same_delivery_def)
next
  case (Frame wsid f)
  from assms show ?thesis
    unfolding Frame registry_step.simps
    by (induction rule: list_all2_induct)
      (auto simp: same_delivery_on_message, simp_all add: same_delivery_def)
next
  case (Transport wsid s)
  from assms show ?thesis
    unfolding Transport registry_step.simps
    by (induction rule: list_all2_induct) (auto simp: same_delivery_def)
next
  case (Publish room type ev)
  with assms show ?thesis by (simp add: same_delivery_broadcast)
qed

lemma same_delivery_run:
  "list_all2 same_delivery cs cs' \<Longrightarrow>
   list_all2 same_delivery (registry_run cs evs) (registry_run cs' evs)"
  unfolding registry_run_def
  by (induction evs arbitrary: cs cs') (simp_all add: same_delivery_step)

lemma same_delivery_outbox:
  "list_all2 same_delivery cs cs' \<Longrightarrow> map ws_outbox cs' = map ws_outbox cs"
  by (induction rule: list_all2_induct) (simp_all add: same_delivery_def)


lemma join_channel_eq:
  "join_channel ws r = ws\<lparr>ws_channels := set_add (ws_channels ws) (JStr r)\<rparr>"
  by (simp add: join_channel_def control_frame_def on_message_object js_prop_def)

lemma leave_channel_eq:
  "leave_channel ws r = ws\<lparr>ws_channels := set_delete (ws_channels ws) (JStr r)\<rparr>"
  by (simp add: leave_channel_def control_frame_def on_message_object js_prop_def)

lemma join_workspace_eq:
  "join_workspace ws r = ws\<lparr>ws_workspaces := set_add (ws_workspaces ws) (JStr r)\<rparr>"
  by (simp add: join_workspace_def control_frame_def on_message_object js_prop_def)

lemma leave_workspace_eq:
  "leave_workspace ws r = ws\<lparr>ws_workspaces := set_delete (ws_workspaces ws) (JStr r)\<rparr>"
  by (simp add: leave_workspace_def control_frame_def on_message_object js_prop_def)

lemma set_add_idem: "primitive v \<Longrightarrow> set_add (set_add xs v) v = set_add xs v"
  by (simp add: set_add_def set_has_def)

lemma set_delete_idem: "set_delete (set_delete xs v) v = set_delete xs v"
  by (simp add: set_delete_def set_has_def)

lemma rejoin_same_delivery:
  "interested Channel r c \<Longrightarrow> same_delivery c (join_channel (leave_channel c r) r)"
  "interested Workspace r c \<Longrightarrow> same_delivery c (join_workspace (leave_workspace c r) r)"
  by (auto simp: same_delivery_def interested_rooms join_channel_eq leave_channel_eq
      join_workspace_eq leave_workspace_eq rooms_set_add rooms_set_delete)

lemma rejoin_outbox:
  assumes "i < length cs" and "same_delivery (cs ! i) c'"
  shows "map ws_outbox (registry_run (cs[i := c']) evs) = map ws_outbox (registry_run cs evs)"
proof -
  have "list_all2 same_delivery cs cs"
    by (simp add: list_all2_conv_all_nth same_delivery_refl)
  from list_all2_update_cong [OF this assms(2), of i]
  have "list_all2 same_delivery cs (cs[i := c'])" by simp
  from same_delivery_outbox [OF same_delivery_run [OF this]] show ?thesis .
qed

text \<open>
  C7. Joining a room twice is joining it once, leaving twice is leaving once; after a
  join the session is interested in that room and in what it was interested in before,
  after a leave in what it was interested in before except that room. A session that is
  subscribed to a room, leaves it and joins it again receives, along every later
  sequence of registry events, exactly what it would have received had it stayed.
\<close>

theorem subscription_set_semantics:
  "join_channel (join_channel ws r) r = join_channel ws r
   \<and> leave_channel (leave_channel ws r) r = leave_channel ws r
   \<and> join_workspace (join_workspace ws r) r = join_workspace ws r
   \<and> leave_workspace (leave_workspace ws r) r = leave_workspace ws r
   \<and> (\<forall>r'. interested Channel r' (join_channel ws r) \<longleftrightarrow> r' = r \<or> interested Channel r' ws)
   \<and> (\<forall>r'. interested Channel r' (leave_channel ws r) \<longleftrightarrow> r' \<noteq> r \<and> interested Channel r' ws)
   \<and> (\<forall>r'. interested Workspace r' (join_workspace ws r) \<longleftrightarrow> r' = r \<or> interested Workspace r' ws)
   \<and> (\<forall>r'. interested Workspace r' (leave_workspace ws r) \<longleftrightarrow> r' \<noteq> r \<and> interested Workspace r' ws)
   \<and> (\<forall>i evs. i < length cs \<and> interested Channel r (cs ! i) \<longrightarrow>
         map ws_outbox (registry_run (cs[i := join_channel (leave_channel (cs ! i) r) r]) evs)
           = map ws_outbox (registry_run cs evs))
   \<and> (\<forall>i evs. i < length cs \<and> interested Workspace r (cs ! i) \<longrightarrow>
         map ws_outbox (registry_run (cs[i := join_workspace (leave_workspace (cs ! i) r) r]) evs)
           = map ws_outbox (registry_run cs evs))"
proof -
  have idem: "join_channel (join_channel ws r) r = join_channel ws r"
    "leave_channel (leave_channel ws r) r = leave_channel ws r"
    "join_workspace (join_workspace ws r) r = join_workspace ws r"
    "leave_workspace (leave_workspace ws r) r = leave_workspace ws r"
    by (simp_all add: join_channel_eq leave_channel_eq join_workspace_eq leave_workspace_eq
        set_add_idem set_delete_idem)
  have mem: "\<forall>r'. interested Channel r' (join_channel ws r) \<longleftrightarrow> r' = r \<or> interested Channel r' ws"
    "\<forall>r'. interested Channel r' (leave_channel ws r) \<longleftrightarrow> r' \<noteq> r \<and> interested Channel r' ws"
    "\<forall>r'. interested Workspace r' (join_workspace ws r) \<longleftrightarrow> r' = r \<or> interested Workspace r' ws"
    "\<forall>r'. interested Workspace r' (leave_workspace ws r) \<longleftrightarrow> r' \<noteq> r \<and> interested Workspace r' ws"
    by (auto simp: interested_def join_channel_eq leave_channel_eq join_workspace_eq
        leave_workspace_eq set_set_add set_set_delete)
  have ch: "\<forall>i evs. i < length cs \<and> interested Channel r (cs ! i) \<longrightarrow>
         map ws_outbox (registry_run (cs[i := join_channel (leave_channel (cs ! i) r) r]) evs)
           = map ws_outbox (registry_run cs evs)"
    using rejoin_outbox rejoin_same_delivery(1) by blast
  have wk: "\<forall>i evs. i < length cs \<and> interested Workspace r (cs ! i) \<longrightarrow>
         map ws_outbox (registry_run (cs[i := join_workspace (leave_workspace (cs ! i) r) r]) evs)
           = map ws_outbox (registry_run cs evs)"
    using rejoin_outbox rejoin_same_delivery(2) by blast
  from idem mem ch wk show ?thesis by (intro conjI)
qed


theorem broadcast_delivery_witness:
  "(2::nat) < length demo_clients
   \<and> ws_outbox (broadcast ''c1'' Channel demo_event demo_clients ! 0) = [demo_event]
   \<and> broadcast ''c1'' Channel demo_event demo_clients ! 1 = demo_clients ! 1
   \<and> broadcast ''c1'' Channel demo_event demo_clients ! 2 = demo_clients ! 2"
proof -
  have len: "length demo_clients = 3" by (simp add: demo_clients_def)
  note inst = broadcast_delivery [of "''c1''" Channel demo_event demo_clients, THEN conjunct2]
  have "0 < length demo_clients" "1 < length demo_clients" "2 < length demo_clients"
    by (simp_all add: len)
  with inst have
    "broadcast ''c1'' Channel demo_event demo_clients ! 0
       = (if ws_readyState (demo_clients ! 0) = WS_OPEN \<and> interested Channel ''c1'' (demo_clients ! 0)
          then (demo_clients ! 0)\<lparr>ws_outbox := ws_outbox (demo_clients ! 0) @ [demo_event]\<rparr>
          else demo_clients ! 0)"
    "broadcast ''c1'' Channel demo_event demo_clients ! 1
       = (if ws_readyState (demo_clients ! 1) = WS_OPEN \<and> interested Channel ''c1'' (demo_clients ! 1)
          then (demo_clients ! 1)\<lparr>ws_outbox := ws_outbox (demo_clients ! 1) @ [demo_event]\<rparr>
          else demo_clients ! 1)"
    "broadcast ''c1'' Channel demo_event demo_clients ! 2
       = (if ws_readyState (demo_clients ! 2) = WS_OPEN \<and> interested Channel ''c1'' (demo_clients ! 2)
          then (demo_clients ! 2)\<lparr>ws_outbox := ws_outbox (demo_clients ! 2) @ [demo_event]\<rparr>
          else demo_clients ! 2)"
    by blast+
  then show ?thesis
    by (simp add: len) (simp add: demo_clients_def demo_client_def interested_def)
qed

theorem subscription_set_semantics_witness:
  "(0::nat) < length demo_clients \<and> interested Channel ''c1'' (demo_clients ! 0)
   \<and> map ws_outbox
        (registry_run
           (demo_clients[0 := join_channel (leave_channel (demo_clients ! 0) ''c1'') ''c1''])
           [Publish ''c1'' Channel demo_event])
       = [[demo_event], [], []]"
proof -
  have pre: "0 < length demo_clients" "interested Channel ''c1'' (demo_clients ! 0)"
    by (simp_all add: demo_clients_def demo_client_def interested_def)
  have "map ws_outbox (registry_run demo_clients [Publish ''c1'' Channel demo_event])
      = [[demo_event], [], []]"
    by (simp add: registry_run_def broadcast_def demo_clients_def demo_client_def set_has_def
        send_def)
  with subscription_set_semantics [of _ "''c1''" demo_clients] pre show ?thesis
    by simp
qed

lemma lacking_frame_sets:
  assumes "lacks_room_id m"
  shows "on_message ws (Some (JObj m))
           = ws\<lparr>ws_channels := ws_channels (on_message ws (Some (JObj m))),
                ws_workspaces := ws_workspaces (on_message ws (Some (JObj m)))\<rparr>
     \<and> set (ws_channels (on_message ws (Some (JObj m)))) - {JUndefined}
          = set (ws_channels ws) - {JUndefined}
     \<and> set (ws_workspaces (on_message ws (Some (JObj m)))) - {JUndefined}
          = set (ws_workspaces ws) - {JUndefined}"
  using assms
  by (auto simp: lacks_room_id_def on_message_object set_set_add set_set_delete)

text \<open>
  What a frame without its room id does to the interest set: a join makes \<open>undefined\<close>
  a member, a leave removes it.
\<close>

lemma lacking_frame_undefined:
  assumes "js_prop m ''channelId'' = JUndefined"
  shows "js_prop m ''type'' = JStr ''join_channel'' \<Longrightarrow>
           set (ws_channels (on_message ws (Some (JObj m)))) = insert JUndefined (set (ws_channels ws))"
    and "js_prop m ''type'' = JStr ''leave_channel'' \<Longrightarrow>
           set (ws_channels (on_message ws (Some (JObj m)))) = set (ws_channels ws) - {JUndefined}"
  using assms by (simp_all add: on_message_object set_set_add set_set_delete)

lemma lacking_frame_undefined_workspace:
  assumes "js_prop m ''workspaceId'' = JUndefined"
  shows "js_prop m ''type'' = JStr ''join_workspace'' \<Longrightarrow>
           set (ws_workspaces (on_message ws (Some (JObj m))))
             = insert JUndefined (set (ws_workspaces ws))"
    and "js_prop m ''type'' = JStr ''leave_workspace'' \<Longrightarrow>
           set (ws_workspaces (on_message ws (Some (JObj m))))
             = set (ws_workspaces ws) - {JUndefined}"
  using assms by (simp_all add: on_message_object set_set_add set_set_delete)

lemma lacking_frame_same_delivery:
  assumes "lacks_room_id m"
  shows "same_delivery ws (on_message ws (Some (JObj m)))"
  using assms
  by (auto simp: lacks_room_id_def on_message_object rooms_set_add rooms_set_delete
      same_delivery_def)


lemma unknown_type_ignored:
  assumes "\<not> js_includes control_types (js_prop m ''type'')"
  shows "on_message ws (Some (JObj m)) = ws"
proof -
  from assms have "js_prop m ''type'' \<noteq> JStr ''join_channel''"
    "js_prop m ''type'' \<noteq> JStr ''leave_channel''"
    "js_prop m ''type'' \<noteq> JStr ''join_workspace''"
    "js_prop m ''type'' \<noteq> JStr ''leave_workspace''"
    by (auto simp: control_types_def)
  then show ?thesis by (simp add: on_message_object)
qed

lemma frame_keeps_sockets:
  "map ws_id (registry_step cs (Frame i f)) = map ws_id cs
   \<and> map ws_readyState (registry_step cs (Frame i f)) = map ws_readyState cs"
  by (induction cs) (simp_all add: on_message_fixed)

text \<open>
  C10, as the code has it. A frame that is not valid JSON, is not a JSON object, or has a
  type outside the four control types leaves the socket exactly as it was. A frame of a
  control type without its room id changes nothing but the two interest sets, and there
  nothing but the membership of \<open>undefined\<close>: every room is a member after it exactly
  when it was before, so every later publish is delivered as if the frame had not come.
  No frame removes a socket from the registry or changes the state of its transport.
\<close>

theorem malformed_frame_effect:
  "on_message ws None = ws
   \<and> (\<forall>v. (\<forall>m. v \<noteq> JObj m) \<longrightarrow> on_message ws (Some v) = ws)
   \<and> (\<forall>m. \<not> js_includes control_types (js_prop m ''type'') \<longrightarrow> on_message ws (Some (JObj m)) = ws)
   \<and> (\<forall>m. lacks_room_id m \<longrightarrow>
         on_message ws (Some (JObj m))
           = ws\<lparr>ws_channels := ws_channels (on_message ws (Some (JObj m))),
                ws_workspaces := ws_workspaces (on_message ws (Some (JObj m)))\<rparr>
         \<and> set (ws_channels (on_message ws (Some (JObj m)))) - {JUndefined}
              = set (ws_channels ws) - {JUndefined}
         \<and> set (ws_workspaces (on_message ws (Some (JObj m)))) - {JUndefined}
              = set (ws_workspaces ws) - {JUndefined}
         \<and> (\<forall>type room. interested type room (on_message ws (Some (JObj m)))
                          = interested type room ws)
         \<and> (\<forall>cs i evs. i < length cs \<and> cs ! i = ws \<longrightarrow>
               map ws_outbox (registry_run (cs[i := on_message ws (Some (JObj m))]) evs)
                 = map ws_outbox (registry_run cs evs)))
   \<and> (\<forall>cs i f. map ws_id (registry_step cs (Frame i f)) = map ws_id cs
         \<and> map ws_readyState (registry_step cs (Frame i f)) = map ws_readyState cs)"
proof -
  have one: "on_message ws None = ws" by (simp add: on_message_def)
  have two: "\<forall>v. (\<forall>m. v \<noteq> JObj m) \<longrightarrow> on_message ws (Some v) = ws"
    by (simp add: on_message_not_object)
  have three: "\<forall>m. \<not> js_includes control_types (js_prop m ''type'') \<longrightarrow>
      on_message ws (Some (JObj m)) = ws"
    using unknown_type_ignored by blast
  have four: "\<forall>m. lacks_room_id m \<longrightarrow>
         on_message ws (Some (JObj m))
           = ws\<lparr>ws_channels := ws_channels (on_message ws (Some (JObj m))),
                ws_workspaces := ws_workspaces (on_message ws (Some (JObj m)))\<rparr>
         \<and> set (ws_channels (on_message ws (Some (JObj m)))) - {JUndefined}
              = set (ws_channels ws) - {JUndefined}
         \<and> set (ws_workspaces (on_message ws (Some (JObj m)))) - {JUndefined}
              = set (ws_workspaces ws) - {JUndefined}
         \<and> (\<forall>type room. interested type room (on_message ws (Some (JObj m)))
                          = interested type room ws)
         \<and> (\<forall>cs i evs. i < length cs \<and> cs ! i = ws \<longrightarrow>
               map ws_outbox (registry_run (cs[i := on_message ws (Some (JObj m))]) evs)
                 = map ws_outbox (registry_run cs evs))"
  proof (intro allI impI)
    fix m assume lack: "lacks_room_id m"
    note sd = lacking_frame_same_delivery [OF lack, of ws]
    have "\<forall>type room. interested type room (on_message ws (Some (JObj m)))
                          = interested type room ws"
      using same_delivery_interested [OF sd] by blast
    moreover have "\<forall>cs i evs. i < length cs \<and> cs ! i = ws \<longrightarrow>
               map ws_outbox (registry_run (cs[i := on_message ws (Some (JObj m))]) evs)
                 = map ws_outbox (registry_run cs evs)"
      using rejoin_outbox sd by blast
    ultimately show "on_message ws (Some (JObj m))
           = ws\<lparr>ws_channels := ws_channels (on_message ws (Some (JObj m))),
                ws_workspaces := ws_workspaces (on_message ws (Some (JObj m)))\<rparr>
         \<and> set (ws_channels (on_message ws (Some (JObj m)))) - {JUndefined}
              = set (ws_channels ws) - {JUndefined}
         \<and> set (ws_workspaces (on_message ws (Some (JObj m)))) - {JUndefined}
              = set (ws_workspaces ws) - {JUndefined}
         \<and> (\<forall>type room. interested type room (on_message ws (Some (JObj m)))
                          = interested type room ws)
         \<and> (\<forall>cs i evs. i < length cs \<and> cs ! i = ws \<longrightarrow>
               map ws_outbox (registry_run (cs[i := on_message ws (Some (JObj m))]) evs)
                 = map ws_outbox (registry_run cs evs))"
      using lacking_frame_sets [OF lack, of ws] by blast
  qed
  have five: "\<forall>cs i f. map ws_id (registry_step cs (Frame i f)) = map ws_id cs
         \<and> map ws_readyState (registry_step cs (Frame i f)) = map ws_readyState cs"
    using frame_keeps_sockets by blast
  from one two three four five show ?thesis by (intro conjI)
qed

text \<open>
  The claim as it was stated fails on a join frame without a channel id: the socket's
  channel set gains the member \<open>undefined\<close>.
\<close>

theorem missing_room_id_counterexample:
  "lacks_room_id bare_join
   \<and> ws_channels (demo_client 1 WS_OPEN ''c1'') = [JStr ''c1'']
   \<and> ws_channels (on_message (demo_client 1 WS_OPEN ''c1'') (Some (JObj bare_join)))
       = [JStr ''c1'', JUndefined]"
  by (simp add: lacks_room_id_def bare_join_def js_prop_def demo_client_def on_message_object
      set_add_def set_has_def)

theorem malformed_frame_effect_witness:
  "lacks_room_id bare_join
   \<and> interested Channel ''c1'' (on_message (demo_client 1 WS_OPEN ''c1'') (Some (JObj bare_join)))
   \<and> \<not> interested Channel ''c2'' (on_message (demo_client 1 WS_OPEN ''c1'') (Some (JObj bare_join)))
   \<and> on_message (demo_client 1 WS_OPEN ''c1'') (Some (JNum 7)) = demo_client 1 WS_OPEN ''c1''"
proof -
  have lack: "lacks_room_id bare_join"
    by (simp add: lacks_room_id_def bare_join_def js_prop_def)
  note inst = malformed_frame_effect [of "demo_client 1 WS_OPEN ''c1''"]
  from inst lack have "\<forall>type room.
      interested type room (on_message (demo_client 1 WS_OPEN ''c1'') (Some (JObj bare_join)))
        = interested type room (demo_client 1 WS_OPEN ''c1'')"
    by blast
  moreover have "interested Channel ''c1'' (demo_client 1 WS_OPEN ''c1'')"
    "\<not> interested Channel ''c2'' (demo_client 1 WS_OPEN ''c1'')"
    by (simp_all add: interested_def demo_client_def)
  moreover from inst [THEN conjunct2, THEN conjunct1]
  have "on_message (demo_client 1 WS_OPEN ''c1'') (Some (JNum 7)) = demo_client 1 WS_OPEN ''c1''"
    by simp
  ultimately show ?thesis using lack by simp
qed


section \<open>Memory store\<close>





lemma setMemory_rejected:
  assumes "im_value im = JNull \<or> im_value im = JUndefined"
  shows "fst (setMemory e st im) = Inl StorageFailure
     \<and> filter (\<lambda>m. mem_agentId m = im_agentId im \<and> mem_key m = im_key im)
          (memories (snd (setMemory e st im))) = []"
  using assms by (auto simp: setMemory_def Let_def)





section \<open>Message listing\<close>

lemma getMessagesForChannel_before:
  "getMessagesForChannel st channelId limit before = getMessagesForChannel st channelId limit None"
  by (simp add: getMessagesForChannel_def)

lemma getMessagesForChannel_chronological:
  assumes "getMessagesForChannel st channelId limit before = Inr ms"
  shows "(0 \<le> limit \<longrightarrow> length ms \<le> nat limit) \<and> sorted (map msg_createdAt ms)
     \<and> set ms \<subseteq> {m \<in> set (messages st). msg_channelId m = channelId}"
proof -
  let ?ys = "sort_key msg_createdAt (filter (\<lambda>m. msg_channelId m = channelId) (messages st))"
  have sorted: "sorted (map msg_createdAt ?ys)" by (rule sorted_sort_key)
  show ?thesis
  proof (cases "limit < 0")
    case True
    with assms have "ms = ?ys" by (simp add: getMessagesForChannel_def Let_def)
    with sorted True show ?thesis by auto
  next
    case False
    with assms have ms: "ms = rev (take (nat limit) (rev ?ys))"
      by (simp add: getMessagesForChannel_def Let_def split: if_splits)
    then have ms': "ms = drop (length ?ys - nat limit) ?ys" by (simp add: rev_take)
    from sorted have "sorted (drop (length ?ys - nat limit) (map msg_createdAt ?ys))"
      by (rule sorted_wrt_drop)
    then have "sorted (map msg_createdAt ms)" by (simp add: ms' drop_map)
    moreover have "length ms \<le> nat limit" by (simp add: ms)
    moreover have "set ms \<subseteq> set ?ys" unfolding ms' by (rule set_drop_subset)
    then have "set ms \<subseteq> {m \<in> set (messages st). msg_channelId m = channelId}" by auto
    ultimately show ?thesis by simp
  qed
qed

text \<open>
  C9. The query orders by creation time and keeps the newest \<open>limit\<close> rows, so the
  answer is chronological and, for a limit that is not negative, at most \<open>limit\<close> long (lemma
  \<open>getMessagesForChannel_chronological\<close>), but it never looks at \<open>before\<close> (lemma
  \<open>getMessagesForChannel_before\<close>). On the channel of the small deployment, with
  messages m1, m2, m3 created at 1, 2, 3, the request for the messages before m2 is
  answered with all three, m2 and the later m3 included.
\<close>

theorem getMessagesForChannel_cursor_unused:
  "getMessagesForChannel demo_store ''c1'' 50 (Some ''m2'')
     = Inr [demo_message ''m1'' 1, demo_message ''m2'' 2, demo_message ''m3'' 3]"
  by (simp add: getMessagesForChannel_def demo_store_def demo_message_def)


section \<open>Access check\<close>



























lemma lastSeen_access:
  "check_access (updateAgentLastSeen st i t) p w = check_access st p w"
  by (cases p)
    (simp_all add: check_access_def check_member_def getWorkspaceMember_def updateAgentLastSeen_def)














end
